theory Spec2Isabelle
  imports Complex_Main "HOL-Library.Sublist" "HOL-Library.AList"
begin

section \<open>The dashboard client of the voice assistant (\<open>src/app.js\<close>)\<close>

text \<open>
  The class \<open>VoiceAssistantUI\<close> keeps three pieces of data (\<open>isAssistantActive\<close>,
  \<open>devices\<close>, \<open>events\<close>) and a handful of DOM elements that it writes to. The model
  below is one record holding both, and every method of the class is a function from
  that record to the updated record.

  Conventions of the embedding:
  \<^item> JavaScript strings are \<open>string\<close>; the strings written into \<open>innerHTML\<close> are built
    character for character as the template literals of the source build them,
    line breaks and indentation included.
  \<^item> An \<open>async\<close> method is one atomic step: it is given the outcome of its \<open>fetch\<close>
    as an argument (\<open>fetch_result\<close>) and returns the state reached once its promise
    has settled. The requests it issues are appended to the field \<open>requests\<close>.
  \<^item> An exception inside a \<open>try\<close> block is the value \<open>Inl (e, S)\<close>, where \<open>S\<close> is the
    state at the point of the throw; the \<open>catch\<close> clause is a case distinction on it.
  \<^item> What the browser supplies and the source does not define (date formatting,
    \<open>JSON.stringify\<close>, layout heights, the parsing of markup that the data carries
    into a \<open><select>\<close>) is the parameter record \<open>platform\<close>.
\<close>

subsection \<open>Data received from the server\<close>

type_synonym object = "(string \<times> string) list"
  \<comment> \<open>a parsed JSON object: its properties in enumeration order\<close>

record device =
  device_id :: string
  name :: string
  device_type :: string
  location :: string
  status :: string
  properties :: "object option"
  last_updated :: rat

record event =
  event_type :: string
  message :: string
  data :: "object option"
  timestamp :: rat

record assistant_status =
  is_active :: bool
  is_listening :: bool

text \<open>The bodies of the JSON replies; \<open>success\<close> is the field every handler tests.\<close>

record reply =
  success :: bool

record message_reply = reply +
  reply_message :: string

record status_reply = reply +
  reply_status :: assistant_status

record devices_reply = reply +
  reply_devices :: "(string \<times> device) list"

record events_reply = reply +
  reply_events :: "event list"

text \<open>
  The outcome of \<open>await fetch(...)\<close> followed by \<open>await response.json()\<close>: the first
  promise rejects (\<open>Rejected\<close>), the second one rejects because the body is not JSON
  (\<open>NotJson\<close>), or the body parses to a value.
\<close>

datatype 'a fetch_result = Rejected | NotJson | Json 'a

datatype exn = FetchError | JsonSyntaxError

definition fetch_failed :: "'a fetch_result \<Rightarrow> bool" where
  "fetch_failed r = (case r of Json d \<Rightarrow> False | Rejected \<Rightarrow> True | NotJson \<Rightarrow> True)"

subsection \<open>The browser\<close>

record add_form =
  deviceId :: string
  deviceName :: string
  deviceType :: string
  deviceLocation :: string

record platform =
  toLocaleString :: "rat \<Rightarrow> string"
  stringify :: "object \<Rightarrow> string"
  scrollHeight :: "string \<Rightarrow> nat"
  formDefaults :: add_form
  selectValue :: "string \<Rightarrow> string"

record request =
  http_method :: string
  url :: string
  body :: "object option"

record button =
  disabled :: bool
  icon :: "string option"

datatype button_id = StartBtn | StopBtn | TestBtn

text \<open>
  A \<open><select>\<close> element: the markup last assigned to its \<open>innerHTML\<close> and its \<open>value\<close>.

  Assigning \<open>innerHTML\<close> removes the option elements the element had, the selected
  one among them, and parses the new markup. \<open>updateFilters\<close> builds that markup from
  a fixed first option with the value \<open>""\<close> and one option for each location or type,
  whose text it interpolates unescaped. \<open>set_select_innerHTML\<close> is given these
  interpolated strings beside the markup:
  \<^item> when none of them contains \<open><\<close>, \<open>&\<close> or a double quote, the markup is exactly
    the list of options the source means to write, none of which carries a \<open>selected\<close>
    attribute, and the \<open>value\<close> of the element reads \<open>""\<close> afterwards (the first option
    is selected in a drop-down, no option is selected in a list box; \<open>value\<close> is \<open>""\<close>
    in both);
  \<^item> otherwise the data carries markup of its own into the element, and the \<open>value\<close>
    is what the parser of the browser makes of it, the parameter \<open>selectValue\<close> of the
    platform.
\<close>

record select_el =
  sel_innerHTML :: string
  sel_value :: string

definition markup_char :: "char \<Rightarrow> bool" where
  "markup_char c = (c = CHR ''<'' \<or> c = CHR ''&'' \<or> c = CHR 0x22)"

primrec plain_text :: "string \<Rightarrow> bool" where
  "plain_text [] = True"
| "plain_text (c # cs) = (\<not> markup_char c \<and> plain_text cs)"

primrec all_plain :: "string list \<Rightarrow> bool" where
  "all_plain [] = True"
| "all_plain (v # vs) = (plain_text v \<and> all_plain vs)"

definition set_select_innerHTML :: "platform \<Rightarrow> string list \<Rightarrow> string \<Rightarrow> select_el" where
  "set_select_innerHTML env interpolated html =
     \<lparr>sel_innerHTML = html,
      sel_value = (if all_plain interpolated then [] else selectValue env html)\<rparr>"

record notification =
  n_className :: string
  n_innerHTML :: string

datatype callback =
    EventPollTick
  | StatusPollTick
  | DelayedLoadEvents
  | NotificationShow nat
  | NotificationExpire nat

subsection \<open>The state of one client\<close>

record view =
  isAssistantActive :: bool
  devices :: "device list"
  events :: "event list"
  startBtn :: button
  stopBtn :: button
  testBtn :: button
  wakeWordsSelect :: string
  modelSelect :: string
  testCommandInput :: string
  statusIndicator :: string
  statusText :: string
  transcriptionDisplay :: string
  transcriptionScrollTop :: nat
  devicesGrid :: string
  locationFilter :: select_el
  typeFilter :: select_el
  activityLog :: string
  eventFilter :: string
  deviceModal :: bool
  addDeviceModal :: bool
  addDeviceForm :: add_form
  notifications :: "notification list"
  console :: "(string \<times> exn) list"
  requests :: "request list"
  timeouts :: "(nat \<times> callback) list"
  intervals :: "(nat \<times> callback) list"

text \<open>
  \<open>statusIndicator\<close> is the element's \<open>className\<close>, \<open>statusText\<close> its text; the fields
  \<open>transcriptionDisplay\<close>, \<open>devicesGrid\<close> and \<open>activityLog\<close> are the \<open>innerHTML\<close> of
  the three regions; \<open>transcriptionScrollTop\<close> is the value last written to
  \<open>scrollTop\<close>; \<open>deviceModal\<close> and \<open>addDeviceModal\<close> say whether the modal carries the
  class \<open>show\<close>, \<open>addDeviceForm\<close> holds the values of the four inputs of the form.
  \<open>notifications\<close> lists the elements appended to the document body,
  \<open>console\<close> the calls of \<open>console.error\<close>, \<open>requests\<close> the calls of \<open>fetch\<close>,
  \<open>timeouts\<close> and \<open>intervals\<close> the calls of \<open>setTimeout\<close> and \<open>setInterval\<close> with
  their delay in milliseconds, each in the order of the calls.
\<close>

definition get_button :: "button_id \<Rightarrow> view \<Rightarrow> button" where
  "get_button b S = (case b of StartBtn \<Rightarrow> startBtn S | StopBtn \<Rightarrow> stopBtn S | TestBtn \<Rightarrow> testBtn S)"

definition set_button :: "button_id \<Rightarrow> button \<Rightarrow> view \<Rightarrow> view" where
  "set_button b v S =
     (case b of StartBtn \<Rightarrow> S\<lparr>startBtn := v\<rparr>
              | StopBtn \<Rightarrow> S\<lparr>stopBtn := v\<rparr>
              | TestBtn \<Rightarrow> S\<lparr>testBtn := v\<rparr>)"

definition console_error :: "string \<Rightarrow> exn \<Rightarrow> view \<Rightarrow> view" where
  "console_error label e S = S\<lparr>console := console S @ [(label, e)]\<rparr>"

definition fetch_json :: "request \<Rightarrow> 'a fetch_result \<Rightarrow> view \<Rightarrow> (exn \<times> view) + ('a \<times> view)" where
  "fetch_json rq r S =
     (let S' = S\<lparr>requests := requests S @ [rq]\<rparr>
      in case r of
           Rejected \<Rightarrow> Inl (FetchError, S')
         | NotJson \<Rightarrow> Inl (JsonSyntaxError, S')
         | Json d \<Rightarrow> Inr (d, S'))"

definition GET :: "string \<Rightarrow> request" where
  "GET u = \<lparr>http_method = ''GET'', url = u, body = None\<rparr>"

definition DELETE :: "string \<Rightarrow> request" where
  "DELETE u = \<lparr>http_method = ''DELETE'', url = u, body = None\<rparr>"

definition POST :: "string \<Rightarrow> object option \<Rightarrow> request" where
  "POST u b = \<lparr>http_method = ''POST'', url = u, body = b\<rparr>"

subsection \<open>Status line, loading state, notifications\<close>

definition updateStatus :: "string \<Rightarrow> string \<Rightarrow> view \<Rightarrow> view" where
  "updateStatus st text S =
     S\<lparr>statusIndicator := ''status-indicator '' @ st, statusText := text\<rparr>"

definition restored_icon :: "button_id \<Rightarrow> string" where
  "restored_icon b =
     (case b of StartBtn \<Rightarrow> ''fas fa-play''
              | StopBtn \<Rightarrow> ''fas fa-stop''
              | TestBtn \<Rightarrow> ''fas fa-play-circle'')"

definition setLoading :: "button_id \<Rightarrow> bool \<Rightarrow> view \<Rightarrow> view" where
  "setLoading b loading S =
     (let btn = get_button b S in
      if loading
      then set_button b \<lparr>disabled = True,
             icon = map_option (\<lambda>c. ''fas fa-spinner fa-spin'') (icon btn)\<rparr> S
      else set_button b \<lparr>disabled = False,
             icon = map_option (\<lambda>c. restored_icon b) (icon btn)\<rparr> S)"

definition getNotificationIcon :: "string \<Rightarrow> string" where
  "getNotificationIcon t =
     (if t = ''success'' then ''fa-check-circle''
      else if t = ''error'' then ''fa-exclamation-circle''
      else if t = ''warning'' then ''fa-exclamation-triangle''
      else ''fa-info-circle'')"

definition notification_html :: "string \<Rightarrow> string \<Rightarrow> string" where
  \<open>notification_html msg t =
     ''\<newline>'' @
     ''            <div class="notification-content">\<newline>'' @
     ''                <i class="fas '' @ getNotificationIcon t @ ''"></i>\<newline>'' @
     ''                <span>'' @ msg @ ''</span>\<newline>'' @
     ''            </div>\<newline>'' @
     ''        ''\<close>

definition showNotification :: "string \<Rightarrow> string \<Rightarrow> view \<Rightarrow> view" where
  "showNotification msg t S =
     (let k = length (notifications S) in
      S\<lparr>notifications := notifications S @
           [\<lparr>n_className = ''notification notification-'' @ t,
             n_innerHTML = notification_html msg t\<rparr>],
        timeouts := timeouts S @ [(100, NotificationShow k), (3000, NotificationExpire k)]\<rparr>)"

subsection \<open>Devices\<close>

definition Object_values :: "(string \<times> 'a) list \<Rightarrow> 'a list" where
  "Object_values obj = map snd obj"

definition getFilteredDevices :: "view \<Rightarrow> device list" where
  "getFilteredDevices S =
     (let filtered = devices S;
          locationFilter' = sel_value (locationFilter S);
          typeFilter' = sel_value (typeFilter S);
          filtered = (if locationFilter' \<noteq> []
                      then filter (\<lambda>d. location d = locationFilter') filtered else filtered);
          filtered = (if typeFilter' \<noteq> []
                      then filter (\<lambda>d. device_type d = typeFilter') filtered else filtered)
      in filtered)"

definition getDeviceControls :: "device \<Rightarrow> string" where
  \<open>getDeviceControls d =
     concat [
       if status d = ''off''
       then ''<button class="btn btn-primary btn-small" onclick="event.stopPropagation(); app.controlDevice('' @
            [CHR 0x27] @ device_id d @ [CHR 0x27] @ '', '' @ [CHR 0x27] @ ''turn_on'' @ [CHR 0x27] @ '')">\<newline>'' @
            ''                <i class="fas fa-power-off"></i> Turn On\<newline>'' @
            ''            </button>''
       else ''<button class="btn btn-secondary btn-small" onclick="event.stopPropagation(); app.controlDevice('' @
            [CHR 0x27] @ device_id d @ [CHR 0x27] @ '', '' @ [CHR 0x27] @ ''turn_off'' @ [CHR 0x27] @ '')">\<newline>'' @
            ''                <i class="fas fa-power-off"></i> Turn Off\<newline>'' @
            ''            </button>'']\<close>

definition no_devices_html :: string where
  \<open>no_devices_html =
     ''\<newline>'' @
     ''                <div class="no-devices">\<newline>'' @
     ''                    <i class="fas fa-home"></i>\<newline>'' @
     ''                    <p>No devices found</p>\<newline>'' @
     ''                </div>\<newline>'' @
     ''            ''\<close>

definition device_card_html :: "device \<Rightarrow> string" where
  \<open>device_card_html d =
     ''\<newline>'' @
     ''            <div class="device-card" onclick="app.showDeviceDetails('' @
       [CHR 0x27] @ device_id d @ [CHR 0x27] @ '')">\<newline>'' @
     ''                <div class="device-header">\<newline>'' @
     ''                    <div class="device-info">\<newline>'' @
     ''                        <h4>'' @ name d @ ''</h4>\<newline>'' @
     ''                        <span class="device-type">'' @ device_type d @ ''</span>\<newline>'' @
     ''                    </div>\<newline>'' @
     ''                    <span class="device-status '' @ status d @ ''">'' @ status d @ ''</span>\<newline>'' @
     ''                </div>\<newline>'' @
     ''                <div class="device-location">\<newline>'' @
     ''                    <i class="fas fa-map-marker-alt"></i>\<newline>'' @
     ''                    '' @ location d @ ''\<newline>'' @
     ''                </div>\<newline>'' @
     ''                <div class="device-controls-inline">\<newline>'' @
     ''                    '' @ getDeviceControls d @ ''\<newline>'' @
     ''                </div>\<newline>'' @
     ''            </div>\<newline>'' @
     ''        ''\<close>

definition renderDevices :: "view \<Rightarrow> view" where
  "renderDevices S =
     (let filteredDevices = getFilteredDevices S in
      if length filteredDevices = 0
      then S\<lparr>devicesGrid := no_devices_html\<rparr>
      else S\<lparr>devicesGrid := concat (map device_card_html filteredDevices)\<rparr>)"

text \<open>
  \<open>[...new Set(xs)]\<close>: the distinct elements of \<open>xs\<close>, each at the place of its
  first occurrence.
\<close>

fun Set_add_all :: "'a list \<Rightarrow> 'a list \<Rightarrow> 'a list" where
  "Set_add_all seen [] = seen"
| "Set_add_all seen (x # xs) = Set_add_all (if x \<in> set seen then seen else seen @ [x]) xs"

definition Set_values :: "'a list \<Rightarrow> 'a list" where
  "Set_values xs = Set_add_all [] xs"

definition option_html :: "string \<Rightarrow> string" where
  \<open>option_html v = ''<option value="'' @ v @ ''">'' @ v @ ''</option>''\<close>

definition updateFilters :: "platform \<Rightarrow> view \<Rightarrow> view" where
  \<open>updateFilters env S =
     (let locations = Set_values (map location (devices S));
          S1 = S\<lparr>locationFilter := set_select_innerHTML env locations
                 (''<option value="">All Locations</option>'' @ concat (map option_html locations))\<rparr>;
          types = Set_values (map device_type (devices S1))
      in S1\<lparr>typeFilter := set_select_innerHTML env types
                 (''<option value="">All Types</option>'' @ concat (map option_html types))\<rparr>)\<close>

definition filterDevices :: "view \<Rightarrow> view" where
  "filterDevices S = renderDevices S"

definition loadDevices_try ::
  "platform \<Rightarrow> devices_reply fetch_result \<Rightarrow> view \<Rightarrow> (exn \<times> view) + view" where
  "loadDevices_try env r S =
     (case fetch_json (GET ''/api/devices/'') r S of
        Inl x \<Rightarrow> Inl x
      | Inr (data', S1) \<Rightarrow>
          Inr (if success data'
               then updateFilters env
                      (renderDevices (S1\<lparr>devices := Object_values (reply_devices data')\<rparr>))
               else S1))"

definition loadDevices :: "platform \<Rightarrow> devices_reply fetch_result \<Rightarrow> view \<Rightarrow> view" where
  "loadDevices env r S =
     (case loadDevices_try env r S of
        Inr S' \<Rightarrow> S'
      | Inl (e, S') \<Rightarrow>
          showNotification ''Failed to load devices'' ''error''
            (console_error ''Error loading devices:'' e S'))"

subsection \<open>Events and transcription\<close>

definition getFilteredEvents :: "view \<Rightarrow> event list" where
  "getFilteredEvents S =
     (let f = eventFilter S in
      if f = [] then events S else filter (\<lambda>e. event_type e = f) (events S))"

definition no_events_html :: string where
  \<open>no_events_html =
     ''\<newline>'' @
     ''                <div class="no-events">\<newline>'' @
     ''                    <i class="fas fa-history"></i>\<newline>'' @
     ''                    <p>No events found</p>\<newline>'' @
     ''                </div>\<newline>'' @
     ''            ''\<close>

definition Object_keys :: "object \<Rightarrow> string list" where
  "Object_keys obj = map fst obj"

definition activity_item_html :: "platform \<Rightarrow> event \<Rightarrow> string" where
  \<open>activity_item_html env e =
     ''\<newline>'' @
     ''            <div class="activity-item">\<newline>'' @
     ''                <div class="activity-header">\<newline>'' @
     ''                    <span class="activity-type '' @ event_type e @ ''">'' @ event_type e @ ''</span>\<newline>'' @
     ''                    <span class="activity-timestamp">'' @
       toLocaleString env (timestamp e * 1000) @ ''</span>\<newline>'' @
     ''                </div>\<newline>'' @
     ''                <div class="activity-message">'' @ message e @ ''</div>\<newline>'' @
     ''                '' @
       (case data e of
          None \<Rightarrow> []
        | Some obj \<Rightarrow>
            if length (Object_keys obj) > 0
            then ''\<newline>'' @
                 ''                    <div class="activity-details">'' @ stringify env obj @ ''</div>\<newline>'' @
                 ''                ''
            else []) @
       ''\<newline>'' @
     ''            </div>\<newline>'' @
     ''        ''\<close>

definition renderEvents :: "platform \<Rightarrow> view \<Rightarrow> view" where
  "renderEvents env S =
     (let filteredEvents = getFilteredEvents S in
      if length filteredEvents = 0
      then S\<lparr>activityLog := no_events_html\<rparr>
      else S\<lparr>activityLog := concat (map (activity_item_html env) filteredEvents)\<rparr>)"

definition filterEvents :: "platform \<Rightarrow> view \<Rightarrow> view" where
  "filterEvents env S = renderEvents env S"

definition is_transcription :: "event \<Rightarrow> bool" where
  "is_transcription e =
     (event_type e = ''transcription_final'' \<or> event_type e = ''transcription_partial'')"

text \<open>\<open>xs.slice(-n)\<close>: the last \<open>n\<close> elements of \<open>xs\<close>, all of them when \<open>xs\<close> is shorter.\<close>

definition slice_last :: "nat \<Rightarrow> 'a list \<Rightarrow> 'a list" where
  "slice_last n xs = drop (length xs - n) xs"

definition transcriptionEvents :: "view \<Rightarrow> event list" where
  "transcriptionEvents S = filter is_transcription (events S)"

definition transcription_inactive_html :: string where
  \<open>transcription_inactive_html =
     ''\<newline>'' @
     ''                    <div class="placeholder">\<newline>'' @
     ''                        <i class="fas fa-microphone-slash"></i>\<newline>'' @
     ''                        <p>Voice assistant is not active. Start the assistant to see transcriptions.</p>\<newline>'' @
     ''                    </div>\<newline>'' @
     ''                ''\<close>

definition transcription_waiting_html :: string where
  \<open>transcription_waiting_html =
     ''\<newline>'' @
     ''                    <div class="placeholder">\<newline>'' @
     ''                        <i class="fas fa-microphone"></i>\<newline>'' @
     ''                        <p>Waiting for voice input...</p>\<newline>'' @
     ''                    </div>\<newline>'' @
     ''                ''\<close>

definition transcription_item_html :: "platform \<Rightarrow> event \<Rightarrow> string" where
  \<open>transcription_item_html env e =
     ''\<newline>'' @
     ''            <div class="transcription-item '' @
       (if event_type e = ''transcription_partial'' then ''partial'' else []) @ ''">\<newline>'' @
     ''                <div class="timestamp">'' @ toLocaleString env (timestamp e * 1000) @ ''</div>\<newline>'' @
     ''                <div class="text">'' @ message e @ ''</div>\<newline>'' @
     ''            </div>\<newline>'' @
     ''        ''\<close>

definition updateTranscription :: "platform \<Rightarrow> view \<Rightarrow> view" where
  "updateTranscription env S =
     (let tr = transcriptionEvents S in
      if length tr = 0
      then (if \<not> isAssistantActive S
            then S\<lparr>transcriptionDisplay := transcription_inactive_html\<rparr>
            else S\<lparr>transcriptionDisplay := transcription_waiting_html\<rparr>)
      else
        (let S1 = S\<lparr>transcriptionDisplay :=
                      concat (map (transcription_item_html env) (slice_last 10 tr))\<rparr>
         in S1\<lparr>transcriptionScrollTop := scrollHeight env (transcriptionDisplay S1)\<rparr>))"

definition transcription_cleared_html :: "bool \<Rightarrow> string" where
  \<open>transcription_cleared_html active =
     ''\<newline>'' @
     ''            <div class="placeholder">\<newline>'' @
     ''                <i class="fas fa-microphone"></i>\<newline>'' @
     ''                <p>Transcription cleared. '' @
       (if active then ''Waiting for voice input...''
        else ''Start the assistant to see transcriptions.'') @ ''</p>\<newline>'' @
     ''            </div>\<newline>'' @
     ''        ''\<close>

definition clearTranscription :: "view \<Rightarrow> view" where
  "clearTranscription S =
     S\<lparr>transcriptionDisplay := transcription_cleared_html (isAssistantActive S)\<rparr>"

definition loadEvents_try ::
  "platform \<Rightarrow> events_reply fetch_result \<Rightarrow> view \<Rightarrow> (exn \<times> view) + view" where
  "loadEvents_try env r S =
     (case fetch_json (GET ''/api/voice/events?limit=50'') r S of
        Inl x \<Rightarrow> Inl x
      | Inr (data', S1) \<Rightarrow>
          Inr (if success data'
               then updateTranscription env (renderEvents env (S1\<lparr>events := reply_events data'\<rparr>))
               else S1))"

definition loadEvents :: "platform \<Rightarrow> events_reply fetch_result \<Rightarrow> view \<Rightarrow> view" where
  "loadEvents env r S =
     (case loadEvents_try env r S of
        Inr S' \<Rightarrow> S'
      | Inl (e, S') \<Rightarrow> console_error ''Error loading events:'' e S')"

definition clearEvents_try ::
  "platform \<Rightarrow> message_reply fetch_result \<Rightarrow> view \<Rightarrow> (exn \<times> view) + view" where
  "clearEvents_try env r S =
     (case fetch_json (POST ''/api/voice/events/clear'' None) r S of
        Inl x \<Rightarrow> Inl x
      | Inr (data', S1) \<Rightarrow>
          Inr (if success data'
               then showNotification ''Events cleared'' ''info''
                      (clearTranscription (renderEvents env (S1\<lparr>events := []\<rparr>)))
               else showNotification (reply_message data') ''error'' S1))"

definition clearEvents :: "platform \<Rightarrow> message_reply fetch_result \<Rightarrow> view \<Rightarrow> view" where
  "clearEvents env r S =
     (case clearEvents_try env r S of
        Inr S' \<Rightarrow> S'
      | Inl (e, S') \<Rightarrow>
          showNotification ''Failed to clear events'' ''error''
            (console_error ''Error clearing events:'' e S'))"

subsection \<open>Starting, stopping and testing the assistant\<close>

definition startAssistant_try :: "message_reply fetch_result \<Rightarrow> view \<Rightarrow> (exn \<times> view) + view" where
  "startAssistant_try r S =
     (let S0 = setLoading StartBtn True S;
          rq = POST ''/api/voice/start''
                 (Some [(''wake_words'', wakeWordsSelect S0), (''model'', modelSelect S0)])
      in case fetch_json rq r S0 of
           Inl x \<Rightarrow> Inl x
         | Inr (data', S1) \<Rightarrow>
             Inr (if success data'
                  then (let S2 = S1\<lparr>isAssistantActive := True\<rparr>;
                            S3 = updateStatus ''active'' ''Voice assistant started'' S2;
                            S4 = S3\<lparr>startBtn := (startBtn S3)\<lparr>disabled := True\<rparr>\<rparr>;
                            S5 = S4\<lparr>stopBtn := (stopBtn S4)\<lparr>disabled := False\<rparr>\<rparr>
                        in showNotification ''Voice assistant started successfully'' ''success'' S5)
                  else showNotification (reply_message data') ''error'' S1))"

definition startAssistant :: "message_reply fetch_result \<Rightarrow> view \<Rightarrow> view" where
  "startAssistant r S =
     setLoading StartBtn False
       (case startAssistant_try r S of
          Inr S' \<Rightarrow> S'
        | Inl (e, S') \<Rightarrow>
            showNotification ''Failed to start voice assistant'' ''error''
              (console_error ''Error starting assistant:'' e S'))"

definition stopAssistant_try :: "message_reply fetch_result \<Rightarrow> view \<Rightarrow> (exn \<times> view) + view" where
  "stopAssistant_try r S =
     (let S0 = setLoading StopBtn True S
      in case fetch_json (POST ''/api/voice/stop'' None) r S0 of
           Inl x \<Rightarrow> Inl x
         | Inr (data', S1) \<Rightarrow>
             Inr (if success data'
                  then (let S2 = S1\<lparr>isAssistantActive := False\<rparr>;
                            S3 = updateStatus ''offline'' ''Voice assistant stopped'' S2;
                            S4 = S3\<lparr>startBtn := (startBtn S3)\<lparr>disabled := False\<rparr>\<rparr>;
                            S5 = S4\<lparr>stopBtn := (stopBtn S4)\<lparr>disabled := True\<rparr>\<rparr>
                        in showNotification ''Voice assistant stopped'' ''info'' S5)
                  else showNotification (reply_message data') ''error'' S1))"

definition stopAssistant :: "message_reply fetch_result \<Rightarrow> view \<Rightarrow> view" where
  "stopAssistant r S =
     setLoading StopBtn False
       (case stopAssistant_try r S of
          Inr S' \<Rightarrow> S'
        | Inl (e, S') \<Rightarrow>
            showNotification ''Failed to stop voice assistant'' ''error''
              (console_error ''Error stopping assistant:'' e S'))"

text \<open>
  \<open>String.prototype.trim\<close> on code units below 256: tab, line feed, vertical tab,
  form feed, carriage return, space and the no-break space are white space.
\<close>

definition is_whitespace :: "char \<Rightarrow> bool" where
  "is_whitespace c =
     (c = CHR 0x09 \<or> c = CHR 0x0A \<or> c = CHR 0x0B \<or> c = CHR 0x0C \<or> c = CHR 0x0D \<or>
      c = CHR 0x20 \<or> c = CHR 0xA0)"

definition trim :: "string \<Rightarrow> string" where
  "trim s = rev (dropWhile is_whitespace (rev (dropWhile is_whitespace s)))"

definition testCommand_try ::
  "string \<Rightarrow> message_reply fetch_result \<Rightarrow> view \<Rightarrow> (exn \<times> view) + view" where
  "testCommand_try command r S =
     (let S0 = setLoading TestBtn True S
      in case fetch_json (POST ''/api/voice/test'' (Some [(''text'', command)])) r S0 of
           Inl x \<Rightarrow> Inl x
         | Inr (data', S1) \<Rightarrow>
             Inr (if success data'
                  then (let S2 = showNotification ''Command processed successfully'' ''success'' S1;
                            S3 = S2\<lparr>testCommandInput := []\<rparr>
                        in S3\<lparr>timeouts := timeouts S3 @ [(500, DelayedLoadEvents)]\<rparr>)
                  else showNotification (reply_message data') ''error'' S1))"

definition testCommand :: "message_reply fetch_result \<Rightarrow> view \<Rightarrow> view" where
  "testCommand r S =
     (let command = trim (testCommandInput S) in
      if command = []
      then showNotification ''Please enter a command to test'' ''warning'' S
      else setLoading TestBtn False
             (case testCommand_try command r S of
                Inr S' \<Rightarrow> S'
              | Inl (e, S') \<Rightarrow>
                  showNotification ''Failed to test command'' ''error''
                    (console_error ''Error testing command:'' e S')))"

definition checkAssistantStatus_try ::
  "status_reply fetch_result \<Rightarrow> view \<Rightarrow> (exn \<times> view) + view" where
  "checkAssistantStatus_try r S =
     (case fetch_json (GET ''/api/voice/status'') r S of
        Inl x \<Rightarrow> Inl x
      | Inr (data', S1) \<Rightarrow>
          Inr (if success data'
               then (let status' = reply_status data';
                         S2 = S1\<lparr>isAssistantActive := is_active status'\<rparr>
                     in if is_active status'
                        then (let S3 = (if is_listening status'
                                        then updateStatus ''listening'' ''Listening...'' S2
                                        else updateStatus ''active'' ''Active'' S2);
                                  S4 = S3\<lparr>startBtn := (startBtn S3)\<lparr>disabled := True\<rparr>\<rparr>
                              in S4\<lparr>stopBtn := (stopBtn S4)\<lparr>disabled := False\<rparr>\<rparr>)
                        else (let S3 = updateStatus ''offline'' ''Offline'' S2;
                                  S4 = S3\<lparr>startBtn := (startBtn S3)\<lparr>disabled := False\<rparr>\<rparr>
                              in S4\<lparr>stopBtn := (stopBtn S4)\<lparr>disabled := True\<rparr>\<rparr>))
               else S1))"

definition checkAssistantStatus :: "status_reply fetch_result \<Rightarrow> view \<Rightarrow> view" where
  "checkAssistantStatus r S =
     (case checkAssistantStatus_try r S of
        Inr S' \<Rightarrow> S'
      | Inl (e, S') \<Rightarrow> console_error ''Error checking status:'' e S')"

subsection \<open>Device actions\<close>

text \<open>
  \<open>{ action, ...params }\<close>: the property \<open>action\<close> first, then the properties of
  \<open>params\<close>, a repeated key keeping its first place and taking the later value.
\<close>

definition control_body :: "string \<Rightarrow> object \<Rightarrow> object" where
  "control_body action params = fold (\<lambda>(k, v). AList.update k v) params [(''action'', action)]"

definition controlDevice_try ::
  "platform \<Rightarrow> string \<Rightarrow> string \<Rightarrow> object \<Rightarrow> message_reply fetch_result \<Rightarrow> devices_reply fetch_result \<Rightarrow>
   view \<Rightarrow> (exn \<times> view) + view" where
  "controlDevice_try env deviceId' action params r r2 S =
     (case fetch_json (POST (''/api/devices/'' @ deviceId' @ ''/control'')
                         (Some (control_body action params))) r S of
        Inl x \<Rightarrow> Inl x
      | Inr (data', S1) \<Rightarrow>
          Inr (if success data'
               then loadDevices env r2 (showNotification (reply_message data') ''success'' S1)
               else showNotification (reply_message data') ''error'' S1))"

definition controlDevice ::
  "platform \<Rightarrow> string \<Rightarrow> string \<Rightarrow> object \<Rightarrow> message_reply fetch_result \<Rightarrow> devices_reply fetch_result \<Rightarrow>
   view \<Rightarrow> view" where
  "controlDevice env deviceId' action params r r2 S =
     (case controlDevice_try env deviceId' action params r r2 S of
        Inr S' \<Rightarrow> S'
      | Inl (e, S') \<Rightarrow>
          showNotification ''Failed to control device'' ''error''
            (console_error ''Error controlling device:'' e S'))"

definition hideDeviceModal :: "view \<Rightarrow> view" where
  "hideDeviceModal S = S\<lparr>deviceModal := False\<rparr>"

definition hideAddDeviceModal :: "platform \<Rightarrow> view \<Rightarrow> view" where
  "hideAddDeviceModal env S = S\<lparr>addDeviceModal := False, addDeviceForm := formDefaults env\<rparr>"

definition handleAddDevice_try ::
  "platform \<Rightarrow> message_reply fetch_result \<Rightarrow> devices_reply fetch_result \<Rightarrow>
   view \<Rightarrow> (exn \<times> view) + view" where
  "handleAddDevice_try env r r2 S =
     (let deviceData = [(''id'', deviceId (addDeviceForm S)),
                        (''name'', deviceName (addDeviceForm S)),
                        (''device_type'', deviceType (addDeviceForm S)),
                        (''location'', deviceLocation (addDeviceForm S))]
      in case fetch_json (POST ''/api/devices/add'' (Some deviceData)) r S of
           Inl x \<Rightarrow> Inl x
         | Inr (data', S1) \<Rightarrow>
             Inr (if success data'
                  then loadDevices env r2
                         (hideAddDeviceModal env
                           (showNotification ''Device added successfully'' ''success'' S1))
                  else showNotification (reply_message data') ''error'' S1))"

definition handleAddDevice ::
  "platform \<Rightarrow> message_reply fetch_result \<Rightarrow> devices_reply fetch_result \<Rightarrow> view \<Rightarrow> view" where
  "handleAddDevice env r r2 S =
     (case handleAddDevice_try env r r2 S of
        Inr S' \<Rightarrow> S'
      | Inl (e, S') \<Rightarrow>
          showNotification ''Failed to add device'' ''error''
            (console_error ''Error adding device:'' e S'))"

definition removeDevice_try ::
  "platform \<Rightarrow> string \<Rightarrow> message_reply fetch_result \<Rightarrow> devices_reply fetch_result \<Rightarrow>
   view \<Rightarrow> (exn \<times> view) + view" where
  "removeDevice_try env deviceId' r r2 S =
     (case fetch_json (DELETE (''/api/devices/'' @ deviceId')) r S of
        Inl x \<Rightarrow> Inl x
      | Inr (data', S1) \<Rightarrow>
          Inr (if success data'
               then loadDevices env r2
                      (hideDeviceModal
                        (showNotification ''Device removed successfully'' ''success'' S1))
               else showNotification (reply_message data') ''error'' S1))"

text \<open>\<open>confirmed\<close> is the answer of the user to the \<open>confirm\<close> dialogue.\<close>

definition removeDevice ::
  "platform \<Rightarrow> string \<Rightarrow> bool \<Rightarrow> message_reply fetch_result \<Rightarrow> devices_reply fetch_result \<Rightarrow> view \<Rightarrow> view" where
  "removeDevice env deviceId' confirmed r r2 S =
     (if \<not> confirmed then S
      else case removeDevice_try env deviceId' r r2 S of
             Inr S' \<Rightarrow> S'
           | Inl (e, S') \<Rightarrow>
               showNotification ''Failed to remove device'' ''error''
                 (console_error ''Error removing device:'' e S'))"

subsection \<open>Initial load and polling\<close>

definition loadInitialData ::
  "platform \<Rightarrow> devices_reply fetch_result \<Rightarrow> events_reply fetch_result \<Rightarrow>
   status_reply fetch_result \<Rightarrow> view \<Rightarrow> view" where
  "loadInitialData env rd re rs S =
     checkAssistantStatus rs (loadEvents env re (loadDevices env rd S))"

definition startEventPolling :: "view \<Rightarrow> view" where
  "startEventPolling S =
     (let S1 = S\<lparr>intervals := intervals S @ [(2000, EventPollTick)]\<rparr>
      in S1\<lparr>intervals := intervals S1 @ [(5000, StatusPollTick)]\<rparr>)"

text \<open>The two callbacks handed to \<open>setInterval\<close>.\<close>

definition event_poll_tick :: "platform \<Rightarrow> events_reply fetch_result \<Rightarrow> view \<Rightarrow> view" where
  "event_poll_tick env r S = (if isAssistantActive S then loadEvents env r S else S)"

definition status_poll_tick :: "status_reply fetch_result \<Rightarrow> view \<Rightarrow> view" where
  "status_poll_tick r S = checkAssistantStatus r S"

text \<open>
  An interval registered with period \<open>p\<close> fires \<open>p\<close>, \<open>2p\<close>, \<open>3p\<close>, ... milliseconds
  after its registration; \<open>due S t\<close> lists the callbacks of the registered intervals
  that fire at time \<open>t\<close>, on a clock that starts when they are registered.
\<close>

definition fires :: "nat \<Rightarrow> nat \<Rightarrow> bool" where
  "fires p t = (0 < t \<and> t mod p = 0)"

definition due :: "view \<Rightarrow> nat \<Rightarrow> callback list" where
  "due S t = map snd (filter (\<lambda>pc. fires (fst pc) t) (intervals S))"

subsection \<open>What the render functions write, as functions of the data\<close>

text \<open>
  The functions of this subsection are not in the source: each names the value that
  one of the methods above writes, as a function of the fields the method reads. The
  lemmas \<open>renderDevices_writes\<close>, \<open>updateFilters_writes\<close>, \<open>renderEvents_writes\<close> and
  \<open>updateTranscription_writes\<close> below prove that the methods write exactly these.
\<close>

definition filtered_devices :: "device list \<Rightarrow> string \<Rightarrow> string \<Rightarrow> device list" where
  "filtered_devices ds loc typ =
     filter (\<lambda>d. (loc = [] \<or> location d = loc) \<and> (typ = [] \<or> device_type d = typ)) ds"

definition devices_markup :: "device list \<Rightarrow> string \<Rightarrow> string \<Rightarrow> string" where
  "devices_markup ds loc typ =
     (if filtered_devices ds loc typ = [] then no_devices_html
      else concat (map device_card_html (filtered_devices ds loc typ)))"

definition location_select :: "platform \<Rightarrow> device list \<Rightarrow> select_el" where
  \<open>location_select env ds =
     set_select_innerHTML env (Set_values (map location ds))
       (''<option value="">All Locations</option>'' @
        concat (map option_html (Set_values (map location ds))))\<close>

definition type_select :: "platform \<Rightarrow> device list \<Rightarrow> select_el" where
  \<open>type_select env ds =
     set_select_innerHTML env (Set_values (map device_type ds))
       (''<option value="">All Types</option>'' @
        concat (map option_html (Set_values (map device_type ds))))\<close>

definition events_markup :: "platform \<Rightarrow> event list \<Rightarrow> string \<Rightarrow> string" where
  "events_markup env es f =
     (let shown = (if f = [] then es else filter (\<lambda>e. event_type e = f) es)
      in if shown = [] then no_events_html else concat (map (activity_item_html env) shown))"

definition transcription_markup :: "platform \<Rightarrow> event list \<Rightarrow> bool \<Rightarrow> string" where
  "transcription_markup env es active =
     (if filter is_transcription es = []
      then (if active then transcription_waiting_html else transcription_inactive_html)
      else concat (map (transcription_item_html env) (slice_last 10 (filter is_transcription es))))"

definition transcription_scroll :: "platform \<Rightarrow> event list \<Rightarrow> bool \<Rightarrow> nat \<Rightarrow> nat" where
  "transcription_scroll env es active old =
     (if filter is_transcription es = [] then old
      else scrollHeight env (transcription_markup env es active))"

subsection \<open>Concrete states and data\<close>

text \<open>
  States and replies for the concrete instances below. \<open>blank_view\<close> is a client whose
  constructor has just set \<open>isAssistantActive\<close>, \<open>devices\<close> and \<open>events\<close>; the page
  itself is not part of the source, so its regions are taken to be empty and its
  buttons enabled.
\<close>

definition blank_view :: view where
  "blank_view =
     \<lparr>isAssistantActive = False, devices = [], events = [],
      startBtn = \<lparr>disabled = False, icon = Some ''fas fa-play''\<rparr>,
      stopBtn = \<lparr>disabled = False, icon = Some ''fas fa-stop''\<rparr>,
      testBtn = \<lparr>disabled = False, icon = Some ''fas fa-play-circle''\<rparr>,
      wakeWordsSelect = ''jarvis'', modelSelect = ''tiny'', testCommandInput = [],
      statusIndicator = ''status-indicator'', statusText = [],
      transcriptionDisplay = [], transcriptionScrollTop = 0, devicesGrid = [],
      locationFilter = \<lparr>sel_innerHTML = [], sel_value = []\<rparr>,
      typeFilter = \<lparr>sel_innerHTML = [], sel_value = []\<rparr>,
      activityLog = [], eventFilter = [],
      deviceModal = False, addDeviceModal = False,
      addDeviceForm = \<lparr>deviceId = [], deviceName = [], deviceType = ''light'', deviceLocation = []\<rparr>,
      notifications = [], console = [], requests = [], timeouts = [], intervals = []\<rparr>"

definition blank_platform :: platform where
  "blank_platform =
     \<lparr>toLocaleString = (\<lambda>ms. []), stringify = (\<lambda>obj. []), scrollHeight = length,
      formDefaults = \<lparr>deviceId = [], deviceName = [], deviceType = ''light'', deviceLocation = []\<rparr>,
      selectValue = (\<lambda>html. ''injected'')\<rparr>"

definition lamp :: device where
  "lamp = \<lparr>device_id = ''dev1'', name = ''Lamp'', device_type = ''light'',
           location = ''Bedroom'', status = ''off'', properties = None, last_updated = 0\<rparr>"

definition kettle :: device where
  "kettle = \<lparr>device_id = ''dev2'', name = ''Kettle'', device_type = ''switch'',
             location = ''Kitchen'', status = ''on'', properties = None, last_updated = 0\<rparr>"

definition heard :: "string \<Rightarrow> event" where
  "heard t = \<lparr>event_type = t, message = ''hello'', data = None, timestamp = 0\<rparr>"

definition status_json :: "bool \<Rightarrow> bool \<Rightarrow> status_reply" where
  "status_json a l = \<lparr>success = True, reply_status = \<lparr>is_active = a, is_listening = l\<rparr>\<rparr>"

definition twelve_events :: "event list" where
  "twelve_events =
     map heard [''transcription_final'', ''command_result'', ''transcription_partial'',
       ''transcription_final'', ''transcription_partial'', ''transcription_final'',
       ''transcription_partial'', ''transcription_final'', ''transcription_partial'',
       ''transcription_final'', ''transcription_partial'', ''transcription_final'']"

text \<open>
  The notification that \<open>testCommand\<close> shows for a command that is not empty, by the
  outcome of its request: message and type.
\<close>

definition test_outcome :: "message_reply fetch_result \<Rightarrow> string \<times> string" where
  "test_outcome r =
     (case r of
        Json d \<Rightarrow> if success d then (''Command processed successfully'', ''success'')
                  else (reply_message d, ''error'')
      | Rejected \<Rightarrow> (''Failed to test command'', ''error'')
      | NotJson \<Rightarrow> (''Failed to test command'', ''error''))"

definition shown_events :: "event list" where
  "shown_events = [heard ''transcription_final'', heard ''device_change'']"

definition bedroom_view :: view where
  "bedroom_view =
     blank_view\<lparr>devices := [lamp, kettle],
       locationFilter := (location_select blank_platform [lamp, kettle])\<lparr>sel_value := ''Bedroom''\<rparr>,
       typeFilter := type_select blank_platform [lamp, kettle]\<rparr>"

definition home_reply :: devices_reply where
  "home_reply = \<lparr>success = True, reply_devices = [(''dev1'', lamp), (''dev2'', kettle)]\<rparr>"

definition no_events_reply :: events_reply where
  "no_events_reply = \<lparr>success = True, reply_events = []\<rparr>"

definition refusal :: message_reply where
  "refusal = \<lparr>success = False, reply_message = ''Assistant already active''\<rparr>"

definition shown_reply :: events_reply where
  "shown_reply = \<lparr>success = True, reply_events = shown_events\<rparr>"

section \<open>Properties\<close>

lemmas poll_defs =
  loadDevices_def loadDevices_try_def loadEvents_def loadEvents_try_def
  checkAssistantStatus_def checkAssistantStatus_try_def fetch_json_def
  console_error_def showNotification_def Let_def

subsection \<open>The render functions in closed form\<close>

lemma renderDevices_writes:
  "renderDevices S =
     S\<lparr>devicesGrid := devices_markup (devices S) (sel_value (locationFilter S))
                        (sel_value (typeFilter S))\<rparr>"
proof -
  have "getFilteredDevices S =
      filtered_devices (devices S) (sel_value (locationFilter S)) (sel_value (typeFilter S))"
    by (simp add: getFilteredDevices_def filtered_devices_def Let_def)
  thus ?thesis
    by (simp add: renderDevices_def devices_markup_def Let_def)
qed

lemma updateFilters_writes:
  "updateFilters env S =
     S\<lparr>locationFilter := location_select env (devices S),
       typeFilter := type_select env (devices S)\<rparr>"
  by (simp add: updateFilters_def location_select_def type_select_def Let_def)

lemma renderEvents_writes:
  "renderEvents env S = S\<lparr>activityLog := events_markup env (events S) (eventFilter S)\<rparr>"
  by (simp add: renderEvents_def getFilteredEvents_def events_markup_def Let_def)

lemma updateTranscription_writes:
  "updateTranscription env S =
     S\<lparr>transcriptionDisplay := transcription_markup env (events S) (isAssistantActive S),
       transcriptionScrollTop :=
         transcription_scroll env (events S) (isAssistantActive S) (transcriptionScrollTop S)\<rparr>"
  by (simp add: updateTranscription_def transcriptionEvents_def transcription_markup_def
      transcription_scroll_def Let_def)

lemma loadDevices_success:
  "success d \<Longrightarrow>
     loadDevices env (Json d) S =
       S\<lparr>requests := requests S @ [GET ''/api/devices/''],
         devices := Object_values (reply_devices d),
         devicesGrid := devices_markup (Object_values (reply_devices d))
                          (sel_value (locationFilter S)) (sel_value (typeFilter S)),
         locationFilter := location_select env (Object_values (reply_devices d)),
         typeFilter := type_select env (Object_values (reply_devices d))\<rparr>"
  by (simp add: loadDevices_def loadDevices_try_def fetch_json_def renderDevices_writes
      updateFilters_writes)

lemma loadEvents_success:
  "success d \<Longrightarrow>
     loadEvents env (Json d) S =
       S\<lparr>requests := requests S @ [GET ''/api/voice/events?limit=50''],
         events := reply_events d,
         activityLog := events_markup env (reply_events d) (eventFilter S),
         transcriptionDisplay :=
           transcription_markup env (reply_events d) (isAssistantActive S),
         transcriptionScrollTop :=
           transcription_scroll env (reply_events d) (isAssistantActive S)
             (transcriptionScrollTop S)\<rparr>"
  by (simp add: loadEvents_def loadEvents_try_def fetch_json_def renderEvents_writes
      updateTranscription_writes)

lemma checkAssistantStatus_success:
  "success d \<Longrightarrow>
     checkAssistantStatus (Json d) S =
       S\<lparr>requests := requests S @ [GET ''/api/voice/status''],
         isAssistantActive := is_active (reply_status d),
         statusIndicator :=
           (if is_active (reply_status d)
            then (if is_listening (reply_status d) then ''status-indicator listening''
                  else ''status-indicator active'')
            else ''status-indicator offline''),
         statusText :=
           (if is_active (reply_status d)
            then (if is_listening (reply_status d) then ''Listening...'' else ''Active'')
            else ''Offline''),
         startBtn := (startBtn S)\<lparr>disabled := is_active (reply_status d)\<rparr>,
         stopBtn := (stopBtn S)\<lparr>disabled := \<not> is_active (reply_status d)\<rparr>\<rparr>"
  by (simp add: checkAssistantStatus_def checkAssistantStatus_try_def fetch_json_def
      updateStatus_def Let_def)

subsection \<open>Failed polls\<close>

lemma loadDevices_failed:
  "fetch_failed r \<Longrightarrow>
     devices (loadDevices env r S) = devices S \<and> events (loadDevices env r S) = events S \<and>
     isAssistantActive (loadDevices env r S) = isAssistantActive S"
  by (cases r) (simp_all add: fetch_failed_def poll_defs)

lemma loadEvents_failed:
  "fetch_failed r \<Longrightarrow>
     devices (loadEvents env r S) = devices S \<and> events (loadEvents env r S) = events S \<and>
     isAssistantActive (loadEvents env r S) = isAssistantActive S"
  by (cases r) (simp_all add: fetch_failed_def poll_defs)

lemma checkAssistantStatus_failed:
  "fetch_failed r \<Longrightarrow>
     devices (checkAssistantStatus r S) = devices S \<and>
     events (checkAssistantStatus r S) = events S \<and>
     isAssistantActive (checkAssistantStatus r S) = isAssistantActive S"
  by (cases r) (simp_all add: fetch_failed_def poll_defs)

text \<open>
  C1. Whatever the state of the client, a device load, an event load or a status check
  whose fetch fails (the request rejects, or the body does not parse) leaves the stored
  device list, the stored event list and the assistant-active flag as they were.
\<close>

theorem failed_poll_keeps_state:
  assumes "fetch_failed rd" and "fetch_failed re" and "fetch_failed rs"
  shows "(devices (loadDevices env rd S) = devices S \<and> events (loadDevices env rd S) = events S \<and>
            isAssistantActive (loadDevices env rd S) = isAssistantActive S) \<and>
         (devices (loadEvents env re S) = devices S \<and> events (loadEvents env re S) = events S \<and>
            isAssistantActive (loadEvents env re S) = isAssistantActive S) \<and>
         (devices (checkAssistantStatus rs S) = devices S \<and>
            events (checkAssistantStatus rs S) = events S \<and>
            isAssistantActive (checkAssistantStatus rs S) = isAssistantActive S)"
  using assms loadDevices_failed loadEvents_failed checkAssistantStatus_failed by blast

theorem failed_poll_keeps_state_witness:
  "fetch_failed (Rejected :: devices_reply fetch_result) \<and>
   fetch_failed (NotJson :: events_reply fetch_result) \<and>
   fetch_failed (Rejected :: status_reply fetch_result) \<and>
   devices (loadDevices blank_platform Rejected (blank_view\<lparr>devices := [lamp]\<rparr>)) = [lamp] \<and>
   events (loadEvents blank_platform NotJson (blank_view\<lparr>events := [heard ''error'']\<rparr>))
     = [heard ''error''] \<and>
   isAssistantActive (checkAssistantStatus Rejected (blank_view\<lparr>isAssistantActive := True\<rparr>))"
proof -
  have a: "fetch_failed (Rejected :: devices_reply fetch_result)"
    and b: "fetch_failed (NotJson :: events_reply fetch_result)"
    and c: "fetch_failed (Rejected :: status_reply fetch_result)"
    by (simp_all add: fetch_failed_def)
  from failed_poll_keeps_state [OF a b c, where env = blank_platform
      and S = "blank_view\<lparr>devices := [lamp]\<rparr>"]
    failed_poll_keeps_state [OF a b c, where env = blank_platform
      and S = "blank_view\<lparr>events := [heard ''error'']\<rparr>"]
    failed_poll_keeps_state [OF a b c, where env = blank_platform
      and S = "blank_view\<lparr>isAssistantActive := True\<rparr>"]
  show ?thesis using a b c by simp
qed

subsection \<open>Device reconciliation\<close>

text \<open>
  C7. After a device load whose reply has \<open>success\<close> set, the stored device list is
  the list of the values of the \<open>devices\<close> object of the reply: nothing of the previous
  list is kept and nothing is added to what the reply holds.
\<close>

theorem device_snapshot_replaces:
  assumes "success d"
  shows "devices (loadDevices env (Json d) S) = Object_values (reply_devices d) \<and>
         set (devices (loadDevices env (Json d) S)) = snd ` set (reply_devices d)"
  using assms
  by (simp add: poll_defs renderDevices_def updateFilters_def Object_values_def)

theorem device_snapshot_replaces_witness:
  "success \<lparr>success = True, reply_devices = [(''dev2'', kettle)]\<rparr> \<and>
   devices (loadDevices blank_platform (Json \<lparr>success = True, reply_devices = [(''dev2'', kettle)]\<rparr>)
             (blank_view\<lparr>devices := [lamp]\<rparr>)) = [kettle]"
  using device_snapshot_replaces [where d = "\<lparr>success = True, reply_devices = [(''dev2'', kettle)]\<rparr>"
      and env = blank_platform and S = "blank_view\<lparr>devices := [lamp]\<rparr>"]
  by (simp add: Object_values_def)

subsection \<open>Polling\<close>

lemma status_tick_requests:
  "requests (checkAssistantStatus r S) = requests S @ [GET ''/api/voice/status'']"
  by (cases r) (simp_all add: poll_defs updateStatus_def)

lemma loadEvents_requests:
  "requests (loadEvents env r S) = requests S @ [GET ''/api/voice/events?limit=50'']"
  by (cases r) (simp_all add: poll_defs renderEvents_def updateTranscription_def)

text \<open>
  C5. \<open>startEventPolling\<close> registers two intervals, the event poll every 2000 ms and
  the status poll every 5000 ms. A status tick issues the status request whether or
  not the client believes the assistant to be active; an event tick issues the request
  for the 50 most recent events when the client believes the assistant to be active,
  and does nothing at all when it does not.
\<close>

theorem polling_schedule:
  "intervals (startEventPolling S) = intervals S @ [(2000, EventPollTick), (5000, StatusPollTick)] \<and>
   (intervals S = [] \<longrightarrow>
      due (startEventPolling S) t =
        (if fires 2000 t then [EventPollTick] else []) @
        (if fires 5000 t then [StatusPollTick] else [])) \<and>
   requests (status_poll_tick rs S) = requests S @ [GET ''/api/voice/status''] \<and>
   (isAssistantActive S \<longrightarrow>
      requests (event_poll_tick env re S) = requests S @ [GET ''/api/voice/events?limit=50'']) \<and>
   (\<not> isAssistantActive S \<longrightarrow> event_poll_tick env re S = S)"
  by (simp add: startEventPolling_def due_def status_poll_tick_def event_poll_tick_def
      status_tick_requests loadEvents_requests Let_def)

theorem polling_schedule_witness:
  "intervals blank_view = [] \<and>
   due (startEventPolling blank_view) 10000 = [EventPollTick, StatusPollTick] \<and>
   due (startEventPolling blank_view) 4000 = [EventPollTick] \<and>
   due (startEventPolling blank_view) 4500 = [] \<and>
   isAssistantActive (blank_view\<lparr>isAssistantActive := True\<rparr>) \<and>
   requests (event_poll_tick blank_platform Rejected (blank_view\<lparr>isAssistantActive := True\<rparr>))
     = [GET ''/api/voice/events?limit=50''] \<and>
   \<not> isAssistantActive blank_view \<and>
   requests (event_poll_tick blank_platform Rejected blank_view) = [] \<and>
   requests (status_poll_tick Rejected blank_view) = [GET ''/api/voice/status'']"
proof -
  have e: "intervals blank_view = []" "\<not> isAssistantActive blank_view"
    "requests blank_view = []"
    by (simp_all add: blank_view_def)
  from polling_schedule [of blank_view 10000 Rejected blank_platform Rejected]
    polling_schedule [of blank_view 4000 Rejected blank_platform Rejected]
    polling_schedule [of blank_view 4500 Rejected blank_platform Rejected]
    polling_schedule [of "blank_view\<lparr>isAssistantActive := True\<rparr>" 1 Rejected blank_platform Rejected]
  show ?thesis using e by (simp add: fires_def)
qed

subsection \<open>The test command\<close>

lemma testCommand_empty:
  "trim (testCommandInput S) = [] \<Longrightarrow>
     testCommand r S = showNotification ''Please enter a command to test'' ''warning'' S"
  by (simp add: testCommand_def)

lemma testCommand_nonempty_notifications:
  "trim (testCommandInput S) \<noteq> [] \<Longrightarrow>
     notifications (testCommand r S) =
       notifications (showNotification (fst (test_outcome r)) (snd (test_outcome r)) S)"
  by (cases r)
     (simp_all add: testCommand_def testCommand_try_def test_outcome_def fetch_json_def
        setLoading_def set_button_def get_button_def showNotification_def console_error_def Let_def)

lemma testCommand_nonempty_requests:
  "trim (testCommandInput S) \<noteq> [] \<Longrightarrow>
     requests (testCommand r S) =
       requests S @ [POST ''/api/voice/test'' (Some [(''text'', trim (testCommandInput S))])]"
  by (cases r)
     (simp_all add: testCommand_def testCommand_try_def test_outcome_def fetch_json_def
        setLoading_def set_button_def get_button_def showNotification_def console_error_def Let_def)

text \<open>
  C9. A test command that is empty once trimmed appends one warning notification,
  issues no request and changes nothing else of the client (the notification and its
  two timers apart); a test command that is not empty appends exactly one notification,
  which reports the outcome of the request.
\<close>

theorem test_command_notifies_once:
  "(trim (testCommandInput S) = [] \<longrightarrow>
      notifications (testCommand r S) = notifications S @
        [\<lparr>n_className = ''notification notification-warning'',
          n_innerHTML = notification_html ''Please enter a command to test'' ''warning''\<rparr>] \<and>
      requests (testCommand r S) = requests S \<and>
      testCommand r S = S\<lparr>notifications := notifications (testCommand r S),
                            timeouts := timeouts (testCommand r S)\<rparr>) \<and>
   (trim (testCommandInput S) \<noteq> [] \<longrightarrow>
      notifications (testCommand r S) = notifications S @
        [\<lparr>n_className = ''notification notification-'' @ snd (test_outcome r),
          n_innerHTML = notification_html (fst (test_outcome r)) (snd (test_outcome r))\<rparr>] \<and>
      length (notifications (testCommand r S)) = length (notifications S) + 1)"
proof (intro conjI impI)
  assume e: "trim (testCommandInput S) = []"
  show "notifications (testCommand r S) = notifications S @
        [\<lparr>n_className = ''notification notification-warning'',
          n_innerHTML = notification_html ''Please enter a command to test'' ''warning''\<rparr>]"
    by (simp add: testCommand_empty [OF e] showNotification_def Let_def)
  show "requests (testCommand r S) = requests S"
    by (simp add: testCommand_empty [OF e] showNotification_def Let_def)
  show "testCommand r S = S\<lparr>notifications := notifications (testCommand r S),
                            timeouts := timeouts (testCommand r S)\<rparr>"
    by (simp add: testCommand_empty [OF e] showNotification_def Let_def)
next
  assume n: "trim (testCommandInput S) \<noteq> []"
  show a: "notifications (testCommand r S) = notifications S @
        [\<lparr>n_className = ''notification notification-'' @ snd (test_outcome r),
          n_innerHTML = notification_html (fst (test_outcome r)) (snd (test_outcome r))\<rparr>]"
    by (simp add: testCommand_nonempty_notifications [OF n] showNotification_def Let_def)
  show "length (notifications (testCommand r S)) = length (notifications S) + 1"
    by (simp add: a)
qed

theorem test_command_notifies_once_witness:
  "trim (testCommandInput (blank_view\<lparr>testCommandInput := ''  ''\<rparr>)) = [] \<and>
   length (notifications (testCommand Rejected (blank_view\<lparr>testCommandInput := ''  ''\<rparr>))) = 1 \<and>
   requests (testCommand Rejected (blank_view\<lparr>testCommandInput := ''  ''\<rparr>)) = [] \<and>
   trim (testCommandInput (blank_view\<lparr>testCommandInput := '' lights on ''\<rparr>)) = ''lights on'' \<and>
   length (notifications (testCommand Rejected (blank_view\<lparr>testCommandInput := '' lights on ''\<rparr>))) = 1"
proof -
  have a: "trim (testCommandInput (blank_view\<lparr>testCommandInput := ''  ''\<rparr>)) = []"
    by (simp add: trim_def is_whitespace_def)
  have b: "trim (testCommandInput (blank_view\<lparr>testCommandInput := '' lights on ''\<rparr>)) = ''lights on''"
    by (simp add: trim_def is_whitespace_def)
  have c: "notifications blank_view = []" "requests blank_view = []"
    by (simp_all add: blank_view_def)
  from test_command_notifies_once [of "blank_view\<lparr>testCommandInput := ''  ''\<rparr>" Rejected]
    test_command_notifies_once [of "blank_view\<lparr>testCommandInput := '' lights on ''\<rparr>" Rejected]
  show ?thesis using a b c by simp
qed

subsection \<open>Transcription\<close>

lemma slice_last_suffix: "suffix (slice_last n xs) xs"
  by (simp add: slice_last_def suffix_drop)

lemma slice_last_length: "length (slice_last n xs) = min n (length xs)"
  by (simp add: slice_last_def)

text \<open>
  C4. The events that \<open>updateTranscription\<close> displays are the last ten of the stored
  events whose type is \<open>transcription_partial\<close> or \<open>transcription_final\<close>: every one
  of them has one of these two types, there are at most ten of them, they are the end
  of the list of all transcription events (all of it when it has ten entries or
  fewer), and they stand in the order of the fetched list. The event log is in append
  order, so the end of the list holds the most recent events.
\<close>

theorem transcription_view_bounded:
  "(\<forall>e \<in> set (slice_last 10 (transcriptionEvents S)).
      event_type e = ''transcription_partial'' \<or> event_type e = ''transcription_final'') \<and>
   length (slice_last 10 (transcriptionEvents S)) \<le> 10 \<and>
   length (slice_last 10 (transcriptionEvents S)) = min 10 (length (transcriptionEvents S)) \<and>
   suffix (slice_last 10 (transcriptionEvents S)) (filter is_transcription (events S)) \<and>
   subseq (slice_last 10 (transcriptionEvents S)) (events S) \<and>
   (transcriptionEvents S \<noteq> [] \<longrightarrow>
      transcriptionDisplay (updateTranscription env S) =
        concat (map (transcription_item_html env) (slice_last 10 (transcriptionEvents S))))"
proof -
  let ?v = "slice_last 10 (transcriptionEvents S)"
  have suf: "suffix ?v (filter is_transcription (events S))"
    by (simp add: slice_last_suffix transcriptionEvents_def)
  have "set ?v \<subseteq> set (filter is_transcription (events S))"
    using suf by (rule set_mono_suffix)
  hence types: "\<forall>e \<in> set ?v.
      event_type e = ''transcription_partial'' \<or> event_type e = ''transcription_final''"
    by (auto simp: is_transcription_def)
  have "subseq ?v (filter is_transcription (events S))"
    using suf by (rule suffix_imp_subseq)
  hence sub: "subseq ?v (events S)"
    using subseq_filter_left subseq_order.order_trans by blast
  have len: "length ?v = min 10 (length (transcriptionEvents S))"
    by (rule slice_last_length)
  have disp: "transcriptionEvents S \<noteq> [] \<longrightarrow>
      transcriptionDisplay (updateTranscription env S) = concat (map (transcription_item_html env) ?v)"
    by (simp add: updateTranscription_def Let_def)
  from types len suf sub disp show ?thesis by simp
qed

lemma twelve_transcriptions:
  "transcriptionEvents (blank_view\<lparr>events := twelve_events\<rparr>) =
     heard ''transcription_final'' # drop 2 twelve_events"
  by (simp add: transcriptionEvents_def twelve_events_def is_transcription_def heard_def blank_view_def)

theorem transcription_view_bounded_witness:
  "transcriptionEvents (blank_view\<lparr>events := twelve_events\<rparr>) \<noteq> [] \<and>
   slice_last 10 (transcriptionEvents (blank_view\<lparr>events := twelve_events\<rparr>)) = drop 2 twelve_events \<and>
   heard ''transcription_partial'' \<in> set (slice_last 10 (transcriptionEvents (blank_view\<lparr>events := twelve_events\<rparr>))) \<and>
   (event_type (heard ''transcription_partial'') = ''transcription_partial'' \<or>
    event_type (heard ''transcription_partial'') = ''transcription_final'') \<and>
   length (slice_last 10 (transcriptionEvents (blank_view\<lparr>events := twelve_events\<rparr>))) = 10 \<and>
   transcriptionDisplay (updateTranscription blank_platform (blank_view\<lparr>events := twelve_events\<rparr>)) =
     concat (map (transcription_item_html blank_platform) (drop 2 twelve_events))"
proof -
  have a: "slice_last 10 (transcriptionEvents (blank_view\<lparr>events := twelve_events\<rparr>)) = drop 2 twelve_events"
    unfolding twelve_transcriptions by (simp add: slice_last_def twelve_events_def)
  have b: "heard ''transcription_partial'' \<in> set (drop 2 twelve_events)"
    by (simp add: twelve_events_def)
  have c: "transcriptionEvents (blank_view\<lparr>events := twelve_events\<rparr>) \<noteq> []"
    unfolding twelve_transcriptions by simp
  have d: "length (drop 2 twelve_events) = 10"
    by (simp add: twelve_events_def)
  from transcription_view_bounded [of "blank_view\<lparr>events := twelve_events\<rparr>" blank_platform]
  show ?thesis unfolding a using b c d by auto
qed

lemma loadEvents_after_clear:
  "success d \<Longrightarrow> loadEvents env (Json d) (clearTranscription S) = loadEvents env (Json d) S"
  by (simp add: loadEvents_success clearTranscription_def)

text \<open>
  C10. \<open>clearTranscription\<close> writes a placeholder into the transcription display (the
  one for a cleared transcription, worded by the assistant-active flag) and changes
  nothing else; the stored events stay. Deriving the transcription again, by
  \<open>updateTranscription\<close> or by the next successful event load, gives what it would have
  given without the clearing, and when the load returns the events that were stored,
  the display shows their last ten transcription entries again.
\<close>

theorem clear_transcription_frame:
  "transcriptionDisplay (clearTranscription S) =
     transcription_cleared_html (isAssistantActive S) \<and>
   (clearTranscription S)\<lparr>transcriptionDisplay := x\<rparr> = S\<lparr>transcriptionDisplay := x\<rparr> \<and>
   events (clearTranscription S) = events S \<and>
   updateTranscription env (clearTranscription S) = updateTranscription env S \<and>
   (success d \<longrightarrow> loadEvents env (Json d) (clearTranscription S) = loadEvents env (Json d) S) \<and>
   (success d \<and> reply_events d = events S \<and> transcriptionEvents S \<noteq> [] \<longrightarrow>
      transcriptionDisplay (loadEvents env (Json d) (clearTranscription S)) =
        concat (map (transcription_item_html env) (slice_last 10 (transcriptionEvents S))))"
proof (intro conjI impI)
  show "transcriptionDisplay (clearTranscription S) =
      transcription_cleared_html (isAssistantActive S)"
    by (simp add: clearTranscription_def)
  show "(clearTranscription S)\<lparr>transcriptionDisplay := x\<rparr> = S\<lparr>transcriptionDisplay := x\<rparr>"
    by (simp add: clearTranscription_def)
  show "events (clearTranscription S) = events S"
    by (simp add: clearTranscription_def)
  show "updateTranscription env (clearTranscription S) = updateTranscription env S"
    by (simp add: clearTranscription_def updateTranscription_writes)
  show "success d \<Longrightarrow> loadEvents env (Json d) (clearTranscription S) = loadEvents env (Json d) S"
    by (rule loadEvents_after_clear)
next
  assume h: "success d \<and> reply_events d = events S \<and> transcriptionEvents S \<noteq> []"
  hence "transcriptionDisplay (loadEvents env (Json d) (clearTranscription S)) =
      transcription_markup env (events S) (isAssistantActive S)"
    by (simp add: loadEvents_success clearTranscription_def)
  thus "transcriptionDisplay (loadEvents env (Json d) (clearTranscription S)) =
        concat (map (transcription_item_html env) (slice_last 10 (transcriptionEvents S)))"
    using h by (simp add: transcription_markup_def transcriptionEvents_def)
qed

theorem clear_transcription_frame_witness:
  "success \<lparr>success = True, reply_events = shown_events\<rparr> \<and>
   reply_events \<lparr>success = True, reply_events = shown_events\<rparr> =
     events (blank_view\<lparr>events := shown_events\<rparr>) \<and>
   transcriptionEvents (blank_view\<lparr>events := shown_events\<rparr>) = [heard ''transcription_final''] \<and>
   transcriptionDisplay (clearTranscription (blank_view\<lparr>events := shown_events\<rparr>)) =
     transcription_cleared_html False \<and>
   transcription_cleared_html False \<noteq>
     transcription_item_html blank_platform (heard ''transcription_final'') \<and>
   transcriptionDisplay
     (loadEvents blank_platform (Json \<lparr>success = True, reply_events = shown_events\<rparr>)
       (clearTranscription (blank_view\<lparr>events := shown_events\<rparr>))) =
     transcription_item_html blank_platform (heard ''transcription_final'')"
proof -
  have t: "transcriptionEvents (blank_view\<lparr>events := shown_events\<rparr>) = [heard ''transcription_final'']"
    by (simp add: transcriptionEvents_def shown_events_def is_transcription_def heard_def)
  have h: "success \<lparr>success = True, reply_events = shown_events\<rparr> \<and>
      reply_events \<lparr>success = True, reply_events = shown_events\<rparr> =
        events (blank_view\<lparr>events := shown_events\<rparr>) \<and>
      transcriptionEvents (blank_view\<lparr>events := shown_events\<rparr>) \<noteq> []"
    by (simp add: t)
  from clear_transcription_frame [where S = "blank_view\<lparr>events := shown_events\<rparr>"
      and env = blank_platform and d = "\<lparr>success = True, reply_events = shown_events\<rparr>"] h
  have "transcriptionDisplay
     (loadEvents blank_platform (Json \<lparr>success = True, reply_events = shown_events\<rparr>)
       (clearTranscription (blank_view\<lparr>events := shown_events\<rparr>))) =
     concat (map (transcription_item_html blank_platform)
       (slice_last 10 (transcriptionEvents (blank_view\<lparr>events := shown_events\<rparr>))))"
    by blast
  moreover
  from clear_transcription_frame [where S = "blank_view\<lparr>events := shown_events\<rparr>"]
  have "transcriptionDisplay (clearTranscription (blank_view\<lparr>events := shown_events\<rparr>)) =
      transcription_cleared_html (isAssistantActive (blank_view\<lparr>events := shown_events\<rparr>))"
    by blast
  moreover have "\<not> isAssistantActive (blank_view\<lparr>events := shown_events\<rparr>)"
    by (simp add: blank_view_def)
  moreover have "transcription_cleared_html False \<noteq>
      transcription_item_html blank_platform (heard ''transcription_final'')"
    by (simp add: transcription_cleared_html_def transcription_item_html_def)
  ultimately show ?thesis using h by (simp add: t slice_last_def)
qed

subsection \<open>Status\<close>

text \<open>
  C8. After a status check whose reply has \<open>success\<close> set: when the reply says active
  and listening, the status text is \<open>Listening...\<close>, the start button is disabled and
  the stop button enabled; when the reply says not active, the status text is
  \<open>Offline\<close>, the start button is enabled and the stop button disabled.
\<close>

theorem status_poll_shows_state:
  assumes "success d"
  shows "(is_active (reply_status d) \<and> is_listening (reply_status d) \<longrightarrow>
            statusText (checkAssistantStatus (Json d) S) = ''Listening...'' \<and>
            disabled (startBtn (checkAssistantStatus (Json d) S)) \<and>
            \<not> disabled (stopBtn (checkAssistantStatus (Json d) S))) \<and>
         (\<not> is_active (reply_status d) \<longrightarrow>
            statusText (checkAssistantStatus (Json d) S) = ''Offline'' \<and>
            \<not> disabled (startBtn (checkAssistantStatus (Json d) S)) \<and>
            disabled (stopBtn (checkAssistantStatus (Json d) S)))"
  using assms by (simp add: checkAssistantStatus_success)

theorem status_poll_shows_state_witness:
  "success (status_json True True) \<and>
   is_active (reply_status (status_json True True)) \<and>
   is_listening (reply_status (status_json True True)) \<and>
   statusText (checkAssistantStatus (Json (status_json True True)) blank_view) = ''Listening...'' \<and>
   disabled (startBtn (checkAssistantStatus (Json (status_json True True)) blank_view)) \<and>
   \<not> disabled (stopBtn (checkAssistantStatus (Json (status_json True True)) blank_view)) \<and>
   success (status_json False False) \<and>
   \<not> is_active (reply_status (status_json False False)) \<and>
   statusText (checkAssistantStatus (Json (status_json False False))
     (blank_view\<lparr>isAssistantActive := True\<rparr>)) = ''Offline'' \<and>
   \<not> disabled (startBtn (checkAssistantStatus (Json (status_json False False))
     (blank_view\<lparr>isAssistantActive := True\<rparr>))) \<and>
   disabled (stopBtn (checkAssistantStatus (Json (status_json False False))
     (blank_view\<lparr>isAssistantActive := True\<rparr>)))"
proof -
  have a: "success (status_json True True)" and b: "success (status_json False False)"
    by (simp_all add: status_json_def)
  have c: "is_active (reply_status (status_json True True))"
    "is_listening (reply_status (status_json True True))"
    "\<not> is_active (reply_status (status_json False False))"
    by (simp_all add: status_json_def)
  from status_poll_shows_state [OF a, of blank_view]
    status_poll_shows_state [OF b, of "blank_view\<lparr>isAssistantActive := True\<rparr>"]
  show ?thesis using a b c by simp
qed

subsection \<open>Filters\<close>

lemma Set_add_all_set: "set (Set_add_all seen xs) = set seen \<union> set xs"
  by (induction xs arbitrary: seen) auto

lemma Set_values_set: "set (Set_values xs) = set xs"
  by (simp add: Set_values_def Set_add_all_set)

lemma home_devices: "Object_values (reply_devices home_reply) = [lamp, kettle]"
  by (simp add: home_reply_def Object_values_def)

lemma set_select_innerHTML_injected:
  "\<not> all_plain vs \<Longrightarrow> sel_value (set_select_innerHTML env vs html) = selectValue env html"
  by (simp add: set_select_innerHTML_def)

lemma home_selects:
  "sel_value (location_select env [lamp, kettle]) = []"
  "sel_value (type_select env [lamp, kettle]) = []"
  by (simp_all add: location_select_def type_select_def set_select_innerHTML_def
      Set_values_def lamp_def kettle_def markup_char_def)

lemma bedroom_selection:
  "sel_value (locationFilter bedroom_view) = ''Bedroom''"
  "sel_value (typeFilter bedroom_view) = []"
  by (simp_all add: bedroom_view_def home_selects)

text \<open>
  C2. The specification asks that a device load keep the selection of a filter whose
  value still occurs among the new options. The code does not: with the location filter set
  to \<open>Bedroom\<close> and a reply that still holds a device in the bedroom, \<open>loadDevices\<close>
  draws the grid with the selection (the bedroom device only) and then, in
  \<open>updateFilters\<close>, loses the selection to the assignment of \<open>innerHTML\<close>: the drop-down
  reads the show-all value although \<open>Bedroom\<close> is among its new options, and the grid
  beside it is still filtered. The filter of the event list, which no load writes to,
  keeps its selection over an event load.
\<close>

theorem filter_selection_not_preserved:
  "success home_reply \<and>
   sel_value (locationFilter bedroom_view) = ''Bedroom'' \<and>
   ''Bedroom'' \<in> set (Set_values (map location
      (devices (loadDevices blank_platform (Json home_reply) bedroom_view)))) \<and>
   devicesGrid (loadDevices blank_platform (Json home_reply) bedroom_view) =
     device_card_html lamp \<and>
   sel_value (locationFilter (loadDevices blank_platform (Json home_reply) bedroom_view)) = [] \<and>
   sel_value (locationFilter (loadDevices blank_platform (Json home_reply) bedroom_view))
     \<noteq> ''Bedroom'' \<and>
   success shown_reply \<and>
   eventFilter (loadEvents blank_platform (Json shown_reply)
     (blank_view\<lparr>eventFilter := ''error''\<rparr>)) = ''error''"
proof -
  have s: "success home_reply" by (simp add: home_reply_def)
  have s': "success shown_reply" by (simp add: shown_reply_def)
  have v: "sel_value (locationFilter bedroom_view) = ''Bedroom''"
    by (simp add: bedroom_view_def)
  have d: "devices (loadDevices blank_platform (Json home_reply) bedroom_view) = [lamp, kettle]"
    by (simp add: loadDevices_success [OF s] home_devices)
  have m: "''Bedroom'' \<in> set (Set_values (map location [lamp, kettle]))"
    by (simp add: Set_values_set lamp_def)
  have g: "devicesGrid (loadDevices blank_platform (Json home_reply) bedroom_view) =
      device_card_html lamp"
    by (simp add: loadDevices_success [OF s] home_devices)
       (simp add: bedroom_selection devices_markup_def filtered_devices_def lamp_def kettle_def)
  have r: "sel_value (locationFilter (loadDevices blank_platform (Json home_reply) bedroom_view)) = []"
    by (simp add: loadDevices_success [OF s] home_devices home_selects)
  have e: "eventFilter (loadEvents blank_platform (Json shown_reply)
      (blank_view\<lparr>eventFilter := ''error''\<rparr>)) = ''error''"
    by (simp add: loadEvents_success [OF s'])
  from s s' v m g r e show ?thesis by (simp add: d)
qed

subsection \<open>Running the reconciliation twice\<close>

lemma loadInitialData_success:
  assumes "success d" and "success e" and "success s"
  shows "loadInitialData env (Json d) (Json e) (Json s) S =
       S\<lparr>requests := requests S @ [GET ''/api/devices/'', GET ''/api/voice/events?limit=50'',
                                     GET ''/api/voice/status''],
         devices := Object_values (reply_devices d),
         devicesGrid := devices_markup (Object_values (reply_devices d))
                          (sel_value (locationFilter S)) (sel_value (typeFilter S)),
         locationFilter := location_select env (Object_values (reply_devices d)),
         typeFilter := type_select env (Object_values (reply_devices d)),
         events := reply_events e,
         activityLog := events_markup env (reply_events e) (eventFilter S),
         transcriptionDisplay :=
           transcription_markup env (reply_events e) (isAssistantActive S),
         transcriptionScrollTop :=
           transcription_scroll env (reply_events e) (isAssistantActive S)
             (transcriptionScrollTop S),
         isAssistantActive := is_active (reply_status s),
         statusIndicator :=
           (if is_active (reply_status s)
            then (if is_listening (reply_status s) then ''status-indicator listening''
                  else ''status-indicator active'')
            else ''status-indicator offline''),
         statusText :=
           (if is_active (reply_status s)
            then (if is_listening (reply_status s) then ''Listening...'' else ''Active'')
            else ''Offline''),
         startBtn := (startBtn S)\<lparr>disabled := is_active (reply_status s)\<rparr>,
         stopBtn := (stopBtn S)\<lparr>disabled := \<not> is_active (reply_status s)\<rparr>\<rparr>"
  using assms
  by (simp add: loadInitialData_def loadDevices_success loadEvents_success
      checkAssistantStatus_success)

lemma transcription_active_irrelevant:
  "filter is_transcription es \<noteq> [] \<Longrightarrow>
     transcription_markup env es a = transcription_markup env es b \<and>
     transcription_scroll env es a old = transcription_scroll env es b old"
  by (simp add: transcription_markup_def transcription_scroll_def)

lemma transcription_scroll_again:
  "transcription_scroll env es a (transcription_scroll env es a old) =
     transcription_scroll env es a old"
  by (simp add: transcription_scroll_def)

lemma render_again:
  "renderDevices (renderDevices S) = renderDevices S"
  "renderEvents env (renderEvents env S) = renderEvents env S"
  "updateTranscription env (updateTranscription env S) = updateTranscription env S"
  by (simp_all add: renderDevices_writes renderEvents_writes updateTranscription_writes
      transcription_scroll_again)

lemma loadEvents_again:
  "success e \<Longrightarrow>
     loadEvents env (Json e) (loadEvents env (Json e) S) =
       (loadEvents env (Json e) S)
         \<lparr>requests := requests (loadEvents env (Json e) (loadEvents env (Json e) S))\<rparr>"
  by (simp add: loadEvents_success transcription_scroll_again)

lemma checkAssistantStatus_again:
  "success s \<Longrightarrow>
     checkAssistantStatus (Json s) (checkAssistantStatus (Json s) S) =
       (checkAssistantStatus (Json s) S)
         \<lparr>requests := requests (checkAssistantStatus (Json s) (checkAssistantStatus (Json s) S))\<rparr>"
  by (simp add: checkAssistantStatus_success)

lemma loadDevices_again:
  assumes "success d"
    and "sel_value (locationFilter (loadDevices env (Json d) S)) = sel_value (locationFilter S)"
    and "sel_value (typeFilter (loadDevices env (Json d) S)) = sel_value (typeFilter S)"
  shows "loadDevices env (Json d) (loadDevices env (Json d) S) =
       (loadDevices env (Json d) S)
         \<lparr>requests := requests (loadDevices env (Json d) (loadDevices env (Json d) S))\<rparr>"
proof -
  have k: "sel_value (location_select env (Object_values (reply_devices d))) =
        sel_value (locationFilter S)"
      "sel_value (type_select env (Object_values (reply_devices d))) =
        sel_value (typeFilter S)"
    using assms by (simp_all add: loadDevices_success)
  show ?thesis by (simp add: loadDevices_success [OF assms(1)] k)
qed

lemma loadInitialData_again:
  assumes "success d" and "success e" and "success s"
    and "sel_value (locationFilter (loadDevices env (Json d) S)) = sel_value (locationFilter S)"
    and "sel_value (typeFilter (loadDevices env (Json d) S)) = sel_value (typeFilter S)"
    and "isAssistantActive S = is_active (reply_status s) \<or>
         filter is_transcription (reply_events e) \<noteq> []"
  shows "loadInitialData env (Json d) (Json e) (Json s)
           (loadInitialData env (Json d) (Json e) (Json s) S) =
         (loadInitialData env (Json d) (Json e) (Json s) S)
           \<lparr>requests := requests (loadInitialData env (Json d) (Json e) (Json s)
               (loadInitialData env (Json d) (Json e) (Json s) S))\<rparr>"
proof -
  have k: "sel_value (location_select env (Object_values (reply_devices d))) =
        sel_value (locationFilter S)"
      "sel_value (type_select env (Object_values (reply_devices d))) =
        sel_value (typeFilter S)"
    using assms(1,4,5) by (simp_all add: loadDevices_success)
  have m: "transcription_markup env (reply_events e) (is_active (reply_status s)) =
           transcription_markup env (reply_events e) (isAssistantActive S)"
    and c: "transcription_scroll env (reply_events e) (is_active (reply_status s))
              (transcription_scroll env (reply_events e) (isAssistantActive S)
                (transcriptionScrollTop S)) =
            transcription_scroll env (reply_events e) (isAssistantActive S)
              (transcriptionScrollTop S)"
    using assms(6) transcription_active_irrelevant [of "reply_events e" env
        "is_active (reply_status s)" "isAssistantActive S"]
    by (auto simp: transcription_scroll_again)
  show ?thesis
    unfolding loadInitialData_success [OF assms(1-3)]
    by (simp add: k m c)
qed

text \<open>
  C3, amended. From any state, each render function run twice gives the state and
  the markup that one run gives; so do, the log of issued requests apart, an event
  load run twice on the same successful reply and a status check run twice on the
  same successful reply. A device load run twice on the same successful reply gives
  the state and the markup that one run gives, the log of issued requests apart,
  provided that the load leaves the selections of both device filters as it found
  them; the whole step (device load, event load, status check, on the same three
  successful replies) does so provided, in addition, that the assistant-active flag
  already agrees with the status of the snapshot or the snapshot holds a
  transcription event. What a device load does to a selection is not stated here.
\<close>

theorem reconcile_twice_same:
  "renderDevices (renderDevices S) = renderDevices S \<and>
   renderEvents env (renderEvents env S) = renderEvents env S \<and>
   updateTranscription env (updateTranscription env S) = updateTranscription env S \<and>
   (success e \<longrightarrow>
      loadEvents env (Json e) (loadEvents env (Json e) S) =
        (loadEvents env (Json e) S)
          \<lparr>requests := requests (loadEvents env (Json e) (loadEvents env (Json e) S))\<rparr>) \<and>
   (success s \<longrightarrow>
      checkAssistantStatus (Json s) (checkAssistantStatus (Json s) S) =
        (checkAssistantStatus (Json s) S)
          \<lparr>requests :=
             requests (checkAssistantStatus (Json s) (checkAssistantStatus (Json s) S))\<rparr>) \<and>
   (success d \<and>
    sel_value (locationFilter (loadDevices env (Json d) S)) = sel_value (locationFilter S) \<and>
    sel_value (typeFilter (loadDevices env (Json d) S)) = sel_value (typeFilter S) \<longrightarrow>
      loadDevices env (Json d) (loadDevices env (Json d) S) =
        (loadDevices env (Json d) S)
          \<lparr>requests := requests (loadDevices env (Json d) (loadDevices env (Json d) S))\<rparr>) \<and>
   (success d \<and> success e \<and> success s \<and>
    sel_value (locationFilter (loadDevices env (Json d) S)) = sel_value (locationFilter S) \<and>
    sel_value (typeFilter (loadDevices env (Json d) S)) = sel_value (typeFilter S) \<and>
    (isAssistantActive S = is_active (reply_status s) \<or>
     filter is_transcription (reply_events e) \<noteq> []) \<longrightarrow>
      loadInitialData env (Json d) (Json e) (Json s)
          (loadInitialData env (Json d) (Json e) (Json s) S) =
        (loadInitialData env (Json d) (Json e) (Json s) S)
          \<lparr>requests := requests (loadInitialData env (Json d) (Json e) (Json s)
              (loadInitialData env (Json d) (Json e) (Json s) S))\<rparr>)"
proof (intro conjI impI)
  show "renderDevices (renderDevices S) = renderDevices S"
    by (rule render_again)
  show "renderEvents env (renderEvents env S) = renderEvents env S"
    by (rule render_again)
  show "updateTranscription env (updateTranscription env S) = updateTranscription env S"
    by (rule render_again)
  show "success e \<Longrightarrow>
      loadEvents env (Json e) (loadEvents env (Json e) S) =
        (loadEvents env (Json e) S)
          \<lparr>requests := requests (loadEvents env (Json e) (loadEvents env (Json e) S))\<rparr>"
    by (rule loadEvents_again)
  show "success s \<Longrightarrow>
      checkAssistantStatus (Json s) (checkAssistantStatus (Json s) S) =
        (checkAssistantStatus (Json s) S)
          \<lparr>requests :=
             requests (checkAssistantStatus (Json s) (checkAssistantStatus (Json s) S))\<rparr>"
    by (rule checkAssistantStatus_again)
  show "success d \<and>
    sel_value (locationFilter (loadDevices env (Json d) S)) = sel_value (locationFilter S) \<and>
    sel_value (typeFilter (loadDevices env (Json d) S)) = sel_value (typeFilter S) \<Longrightarrow>
      loadDevices env (Json d) (loadDevices env (Json d) S) =
        (loadDevices env (Json d) S)
          \<lparr>requests := requests (loadDevices env (Json d) (loadDevices env (Json d) S))\<rparr>"
    by (elim conjE) (rule loadDevices_again)
  show "success d \<and> success e \<and> success s \<and>
    sel_value (locationFilter (loadDevices env (Json d) S)) = sel_value (locationFilter S) \<and>
    sel_value (typeFilter (loadDevices env (Json d) S)) = sel_value (typeFilter S) \<and>
    (isAssistantActive S = is_active (reply_status s) \<or>
     filter is_transcription (reply_events e) \<noteq> []) \<Longrightarrow>
      loadInitialData env (Json d) (Json e) (Json s)
          (loadInitialData env (Json d) (Json e) (Json s) S) =
        (loadInitialData env (Json d) (Json e) (Json s) S)
          \<lparr>requests := requests (loadInitialData env (Json d) (Json e) (Json s)
              (loadInitialData env (Json d) (Json e) (Json s) S))\<rparr>"
    by (elim conjE) (rule loadInitialData_again)
qed

theorem reconcile_twice_same_witness:
  "success home_reply \<and> success shown_reply \<and> success (status_json False False) \<and>
   sel_value (locationFilter (loadDevices blank_platform (Json home_reply) blank_view)) =
     sel_value (locationFilter blank_view) \<and>
   sel_value (typeFilter (loadDevices blank_platform (Json home_reply) blank_view)) =
     sel_value (typeFilter blank_view) \<and>
   isAssistantActive blank_view = is_active (reply_status (status_json False False)) \<and>
   loadDevices blank_platform (Json home_reply)
       (loadDevices blank_platform (Json home_reply) blank_view) =
     (loadDevices blank_platform (Json home_reply) blank_view)
       \<lparr>requests := requests (loadDevices blank_platform (Json home_reply)
          (loadDevices blank_platform (Json home_reply) blank_view))\<rparr> \<and>
   loadInitialData blank_platform (Json home_reply) (Json shown_reply)
       (Json (status_json False False))
     (loadInitialData blank_platform (Json home_reply) (Json shown_reply)
       (Json (status_json False False)) blank_view) =
   (loadInitialData blank_platform (Json home_reply) (Json shown_reply)
       (Json (status_json False False)) blank_view)
     \<lparr>requests := requests
        (loadInitialData blank_platform (Json home_reply) (Json shown_reply)
           (Json (status_json False False))
          (loadInitialData blank_platform (Json home_reply) (Json shown_reply)
           (Json (status_json False False)) blank_view))\<rparr>"
proof -
  have s: "success home_reply" "success shown_reply" "success (status_json False False)"
    by (simp_all add: home_reply_def shown_reply_def status_json_def)
  have f: "sel_value (locationFilter (loadDevices blank_platform (Json home_reply) blank_view)) =
        sel_value (locationFilter blank_view)"
      "sel_value (typeFilter (loadDevices blank_platform (Json home_reply) blank_view)) =
        sel_value (typeFilter blank_view)"
    by (simp_all add: loadDevices_success [OF s(1)] home_devices home_selects)
       (simp_all add: blank_view_def)
  have a: "isAssistantActive blank_view = is_active (reply_status (status_json False False))"
    by (simp add: blank_view_def status_json_def)
  from reconcile_twice_same [where S = blank_view and env = blank_platform and d = home_reply
      and e = shown_reply and s = "status_json False False"] s f a
  show ?thesis by blast
qed

text \<open>
  C3, as stated, fails. On a client that believes the assistant to be inactive, a
  snapshot without events whose status is active: the first run writes the placeholder
  for an inactive assistant into the transcription display, the second run the
  placeholder that waits for input. And with the location filter set to \<open>Bedroom\<close>, a
  first device load draws the bedroom device only, a second load of the same reply
  draws both devices.
\<close>

theorem reconcile_twice_differs:
  "success home_reply \<and> success no_events_reply \<and> success (status_json True True) \<and>
   transcriptionDisplay
     (loadInitialData blank_platform (Json home_reply) (Json no_events_reply)
        (Json (status_json True True)) blank_view) = transcription_inactive_html \<and>
   transcriptionDisplay
     (loadInitialData blank_platform (Json home_reply) (Json no_events_reply)
        (Json (status_json True True))
        (loadInitialData blank_platform (Json home_reply) (Json no_events_reply)
           (Json (status_json True True)) blank_view)) = transcription_waiting_html \<and>
   transcription_waiting_html \<noteq> transcription_inactive_html \<and>
   devicesGrid (loadDevices blank_platform (Json home_reply) bedroom_view) =
     device_card_html lamp \<and>
   devicesGrid (loadDevices blank_platform (Json home_reply)
       (loadDevices blank_platform (Json home_reply) bedroom_view)) =
     device_card_html lamp @ device_card_html kettle \<and>
   device_card_html lamp @ device_card_html kettle \<noteq> device_card_html lamp"
proof -
  have s: "success home_reply" "success no_events_reply" "success (status_json True True)"
    by (simp_all add: home_reply_def no_events_reply_def status_json_def)
  have a: "\<not> isAssistantActive blank_view" by (simp add: blank_view_def)
  have e: "reply_events no_events_reply = []" by (simp add: no_events_reply_def)
  have t: "is_active (reply_status (status_json True True))" by (simp add: status_json_def)
  have one: "transcriptionDisplay
     (loadInitialData blank_platform (Json home_reply) (Json no_events_reply)
        (Json (status_json True True)) blank_view) = transcription_inactive_html"
    by (simp add: loadInitialData_success [OF s] a e transcription_markup_def)
  have two: "transcriptionDisplay
     (loadInitialData blank_platform (Json home_reply) (Json no_events_reply)
        (Json (status_json True True))
        (loadInitialData blank_platform (Json home_reply) (Json no_events_reply)
           (Json (status_json True True)) blank_view)) = transcription_waiting_html"
    by (simp add: loadInitialData_success [OF s] e t transcription_markup_def)
  have ne: "transcription_waiting_html \<noteq> transcription_inactive_html"
    by (simp add: transcription_waiting_html_def transcription_inactive_html_def)
  have g1: "devicesGrid (loadDevices blank_platform (Json home_reply) bedroom_view) =
      device_card_html lamp"
    by (simp add: loadDevices_success [OF s(1)] home_devices)
       (simp add: bedroom_selection devices_markup_def filtered_devices_def lamp_def kettle_def)
  have g2: "devicesGrid (loadDevices blank_platform (Json home_reply)
       (loadDevices blank_platform (Json home_reply) bedroom_view)) =
     device_card_html lamp @ device_card_html kettle"
    by (simp add: loadDevices_success [OF s(1)] home_devices home_selects)
       (simp add: devices_markup_def filtered_devices_def)
  have k: "device_card_html kettle \<noteq> []"
    by (simp add: device_card_html_def)
  from s one two ne g1 g2 k show ?thesis by simp
qed

subsection \<open>Failures at the boundaries\<close>

lemmas action_defs =
  fetch_json_def setLoading_def set_button_def get_button_def showNotification_def
  console_error_def updateStatus_def Let_def

lemma checkAssistantStatus_notifications:
  "notifications (checkAssistantStatus r S) = notifications S"
  by (cases r) (simp_all add: poll_defs updateStatus_def)

lemma loadEvents_notifications:
  "notifications (loadEvents env r S) = notifications S"
  by (cases r) (simp_all add: poll_defs renderEvents_writes updateTranscription_writes)

lemma loadDevices_notifications:
  "notifications (loadDevices env r S) =
     (if fetch_failed r
      then notifications (showNotification ''Failed to load devices'' ''error'' S)
      else notifications S)"
  by (cases r) (simp_all add: fetch_failed_def poll_defs renderDevices_writes updateFilters_writes)

lemma poll_failure_logged:
  "fetch_failed r \<Longrightarrow>
     \<exists>e T. checkAssistantStatus_try r S = Inl (e, T) \<and>
           checkAssistantStatus r S = console_error ''Error checking status:'' e T"
  "fetch_failed r' \<Longrightarrow>
     \<exists>e T. loadEvents_try env r' S = Inl (e, T) \<and>
           loadEvents env r' S = console_error ''Error loading events:'' e T"
  by (cases r; simp add: fetch_failed_def checkAssistantStatus_def checkAssistantStatus_try_def
        fetch_json_def)
     (cases r'; simp add: fetch_failed_def loadEvents_def loadEvents_try_def fetch_json_def)

lemma startAssistant_failure:
  "fetch_failed r \<Longrightarrow>
     notifications (startAssistant r S) =
       notifications (showNotification ''Failed to start voice assistant'' ''error'' S)"
  "\<not> success d \<Longrightarrow>
     notifications (startAssistant (Json d) S) =
       notifications (showNotification (reply_message d) ''error'' S)"
  by (cases r; simp add: fetch_failed_def startAssistant_def startAssistant_try_def action_defs)
     (simp add: startAssistant_def startAssistant_try_def action_defs)

lemma stopAssistant_failure:
  "fetch_failed r \<Longrightarrow>
     notifications (stopAssistant r S) =
       notifications (showNotification ''Failed to stop voice assistant'' ''error'' S)"
  "\<not> success d \<Longrightarrow>
     notifications (stopAssistant (Json d) S) =
       notifications (showNotification (reply_message d) ''error'' S)"
  by (cases r; simp add: fetch_failed_def stopAssistant_def stopAssistant_try_def action_defs)
     (simp add: stopAssistant_def stopAssistant_try_def action_defs)

lemma testCommand_failure:
  "trim (testCommandInput S) \<noteq> [] \<Longrightarrow> fetch_failed r \<Longrightarrow>
     notifications (testCommand r S) =
       notifications (showNotification ''Failed to test command'' ''error'' S)"
  "trim (testCommandInput S) \<noteq> [] \<Longrightarrow> \<not> success d \<Longrightarrow>
     notifications (testCommand (Json d) S) =
       notifications (showNotification (reply_message d) ''error'' S)"
  "trim (testCommandInput S) = [] \<Longrightarrow>
     notifications (testCommand r S) =
       notifications (showNotification ''Please enter a command to test'' ''warning'' S)"
  by (cases r; simp add: fetch_failed_def testCommand_def testCommand_try_def action_defs)
     (simp_all add: testCommand_def testCommand_try_def action_defs)

lemma clearEvents_failure:
  "fetch_failed r \<Longrightarrow>
     notifications (clearEvents env r S) =
       notifications (showNotification ''Failed to clear events'' ''error'' S)"
  "\<not> success d \<Longrightarrow>
     notifications (clearEvents env (Json d) S) =
       notifications (showNotification (reply_message d) ''error'' S)"
  by (cases r; simp add: fetch_failed_def clearEvents_def clearEvents_try_def action_defs)
     (simp add: clearEvents_def clearEvents_try_def action_defs)

lemma controlDevice_failure:
  "fetch_failed r \<Longrightarrow>
     notifications (controlDevice env i a ps r r2 S) =
       notifications (showNotification ''Failed to control device'' ''error'' S)"
  "\<not> success d \<Longrightarrow>
     notifications (controlDevice env i a ps (Json d) r2 S) =
       notifications (showNotification (reply_message d) ''error'' S)"
  by (cases r; simp add: fetch_failed_def controlDevice_def controlDevice_try_def action_defs)
     (simp add: controlDevice_def controlDevice_try_def action_defs)

lemma handleAddDevice_failure:
  "fetch_failed r \<Longrightarrow>
     notifications (handleAddDevice env r r2 S) =
       notifications (showNotification ''Failed to add device'' ''error'' S)"
  "\<not> success d \<Longrightarrow>
     notifications (handleAddDevice env (Json d) r2 S) =
       notifications (showNotification (reply_message d) ''error'' S)"
  by (cases r; simp add: fetch_failed_def handleAddDevice_def handleAddDevice_try_def action_defs)
     (simp add: handleAddDevice_def handleAddDevice_try_def action_defs)

lemma removeDevice_failure:
  "fetch_failed r \<Longrightarrow>
     notifications (removeDevice env i True r r2 S) =
       notifications (showNotification ''Failed to remove device'' ''error'' S)"
  "\<not> success d \<Longrightarrow>
     notifications (removeDevice env i True (Json d) r2 S) =
       notifications (showNotification (reply_message d) ''error'' S)"
  by (cases r; simp add: fetch_failed_def removeDevice_def removeDevice_try_def action_defs)
     (simp add: removeDevice_def removeDevice_try_def action_defs)

text \<open>
  C6, as stated, fails: a status check whose request is rejected logs the error to the
  console and shows no notification.
\<close>

theorem poll_failure_not_notified:
  "fetch_failed (Rejected :: status_reply fetch_result) \<and>
   notifications (checkAssistantStatus Rejected blank_view) = notifications blank_view \<and>
   notifications (checkAssistantStatus Rejected blank_view) = [] \<and>
   console (checkAssistantStatus Rejected blank_view) = [(''Error checking status:'', FetchError)]"
  by (simp add: fetch_failed_def poll_defs blank_view_def)

lemma showNotification_one:
  "length (notifications (showNotification m t S)) = length (notifications S) + 1"
  by (simp add: showNotification_def Let_def)

text \<open>
  C6, amended. Every failure is caught inside the method in which it arises. The
  actions (start, stop, test command, clear events, control, add and remove device)
  turn a failed request into one error notification with a fixed text, and a reply
  with \<open>success\<close> unset into one error notification with the message of the reply; an
  empty test command gives one warning notification. A device load turns a failed
  request into one error notification and ignores a reply with \<open>success\<close> unset. The
  two polls (status check and event load) show no notification in either case: a
  failed request is caught and written to the console, a reply with \<open>success\<close> unset
  is ignored.
\<close>

theorem failures_caught_at_boundary:
  "(fetch_failed rs \<longrightarrow>
      notifications (checkAssistantStatus rs S) = notifications S \<and>
      (\<exists>e T. checkAssistantStatus_try rs S = Inl (e, T) \<and>
             checkAssistantStatus rs S = console_error ''Error checking status:'' e T)) \<and>
   (fetch_failed re \<longrightarrow>
      notifications (loadEvents env re S) = notifications S \<and>
      (\<exists>e T. loadEvents_try env re S = Inl (e, T) \<and>
             loadEvents env re S = console_error ''Error loading events:'' e T)) \<and>
   (\<not> success ds \<longrightarrow> notifications (checkAssistantStatus (Json ds) S) = notifications S) \<and>
   (\<not> success de \<longrightarrow> notifications (loadEvents env (Json de) S) = notifications S) \<and>
   (fetch_failed rd \<longrightarrow>
      notifications (loadDevices env rd S) =
        notifications (showNotification ''Failed to load devices'' ''error'' S)) \<and>
   (\<not> success dd \<longrightarrow> notifications (loadDevices env (Json dd) S) = notifications S) \<and>
   (fetch_failed r \<longrightarrow>
      notifications (startAssistant r S) =
        notifications (showNotification ''Failed to start voice assistant'' ''error'' S) \<and>
      notifications (stopAssistant r S) =
        notifications (showNotification ''Failed to stop voice assistant'' ''error'' S) \<and>
      notifications (clearEvents env r S) =
        notifications (showNotification ''Failed to clear events'' ''error'' S) \<and>
      notifications (controlDevice env i a ps r r2 S) =
        notifications (showNotification ''Failed to control device'' ''error'' S) \<and>
      notifications (handleAddDevice env r r2 S) =
        notifications (showNotification ''Failed to add device'' ''error'' S) \<and>
      notifications (removeDevice env i True r r2 S) =
        notifications (showNotification ''Failed to remove device'' ''error'' S) \<and>
      (trim (testCommandInput S) \<noteq> [] \<longrightarrow>
         notifications (testCommand r S) =
           notifications (showNotification ''Failed to test command'' ''error'' S))) \<and>
   (\<not> success d \<longrightarrow>
      notifications (startAssistant (Json d) S) =
        notifications (showNotification (reply_message d) ''error'' S) \<and>
      notifications (stopAssistant (Json d) S) =
        notifications (showNotification (reply_message d) ''error'' S) \<and>
      notifications (clearEvents env (Json d) S) =
        notifications (showNotification (reply_message d) ''error'' S) \<and>
      notifications (controlDevice env i a ps (Json d) r2 S) =
        notifications (showNotification (reply_message d) ''error'' S) \<and>
      notifications (handleAddDevice env (Json d) r2 S) =
        notifications (showNotification (reply_message d) ''error'' S) \<and>
      notifications (removeDevice env i True (Json d) r2 S) =
        notifications (showNotification (reply_message d) ''error'' S) \<and>
      (trim (testCommandInput S) \<noteq> [] \<longrightarrow>
         notifications (testCommand (Json d) S) =
           notifications (showNotification (reply_message d) ''error'' S))) \<and>
   (trim (testCommandInput S) = [] \<longrightarrow>
      notifications (testCommand r S) =
        notifications (showNotification ''Please enter a command to test'' ''warning'' S)) \<and>
   length (notifications (showNotification m t S)) = length (notifications S) + 1"
  by (intro conjI impI)
     (simp_all add: checkAssistantStatus_notifications loadEvents_notifications
        loadDevices_notifications poll_failure_logged startAssistant_failure
        stopAssistant_failure clearEvents_failure controlDevice_failure
        handleAddDevice_failure removeDevice_failure testCommand_failure
        showNotification_one fetch_failed_def [of "Json dd"])

theorem failures_caught_at_boundary_witness:
  "fetch_failed (Rejected :: status_reply fetch_result) \<and>
   notifications (checkAssistantStatus Rejected blank_view) = [] \<and>
   fetch_failed (NotJson :: events_reply fetch_result) \<and>
   notifications (loadEvents blank_platform NotJson blank_view) = [] \<and>
   fetch_failed (Rejected :: devices_reply fetch_result) \<and>
   length (notifications (loadDevices blank_platform Rejected blank_view)) = 1 \<and>
   fetch_failed (Rejected :: message_reply fetch_result) \<and>
   length (notifications (startAssistant Rejected blank_view)) = 1 \<and>
   \<not> success refusal \<and>
   length (notifications (startAssistant (Json refusal) blank_view)) = 1 \<and>
   trim (testCommandInput blank_view) = [] \<and>
   length (notifications (testCommand Rejected blank_view)) = 1"
proof -
  have f: "fetch_failed (Rejected :: status_reply fetch_result)"
    "fetch_failed (NotJson :: events_reply fetch_result)"
    "fetch_failed (Rejected :: devices_reply fetch_result)"
    "fetch_failed (Rejected :: message_reply fetch_result)"
    by (simp_all add: fetch_failed_def)
  have n: "\<not> success refusal" by (simp add: refusal_def)
  have t: "trim (testCommandInput blank_view) = []"
    by (simp add: blank_view_def trim_def)
  have e: "notifications blank_view = []" by (simp add: blank_view_def)
  have one: "\<And>m t. length (notifications (showNotification m t blank_view)) = 1"
    by (simp add: showNotification_def Let_def e)
  from failures_caught_at_boundary [where rs = Rejected and re = NotJson and rd = Rejected
      and r = Rejected and d = refusal and S = blank_view and env = blank_platform]
    f n t
  show ?thesis by (simp add: e one)
qed

end
